theory Spec2Isabelle
  imports Main
begin

text \<open>
  A shallow embedding of the module \<^verbatim>\<open>supa_slurm.py\<close>: the configuration of a Slurm
  job (\<^verbatim>\<open>SlurmConfig\<close>), the manager that fills it, renders the submission script and
  submits it (\<^verbatim>\<open>Slurm\<close>), and the handle of a submitted job (\<^verbatim>\<open>SlurmJob\<close>). Methods
  that change an object return the object afterwards; a method that can raise returns
  the exception as a value; the scheduler commands are answered by an explicit world.
  Line numbers refer to \<^verbatim>\<open>src/supa_slurm.py\<close>.
\<close>

section \<open>Python values, text and errors\<close>

text \<open>
  The module \<^verbatim>\<open>supa_slurm.py\<close> stores arbitrary Python objects as directive values.
  The values the module itself distinguishes (by \<^verbatim>\<open>isinstance\<close>) are strings, integers
  and \<^verbatim>\<open>datetime.timedelta\<close> objects, and it builds range objects. Under \<^verbatim>\<open>array\<close> it
  subscripts whatever else it is given, so a list or a tuple is a value too. Every other
  object is kept as an opaque value carrying the text \<^verbatim>\<open>str()\<close> gives for it. An opaque
  value supports neither subscripting, nor iteration, nor \<^verbatim>\<open>int()\<close> (as \<^verbatim>\<open>None\<close> does
  not). Text is a list of 8-bit characters; integers are unbounded.

  \<^item> \<open>PTimedelta d s us\<close> is a timedelta with the normalised fields Python keeps
    (\<^verbatim>\<open>days\<close>, \<^verbatim>\<open>seconds\<close>, \<^verbatim>\<open>microseconds\<close>).
  \<^item> \<open>PRange a b st\<close> is \<^verbatim>\<open>range(a, b, st)\<close>.
  \<^item> \<open>PSeq t xs\<close> is a list or a tuple with the elements \<open>xs\<close>, for which \<^verbatim>\<open>str()\<close>
    gives the text \<open>t\<close>.
\<close>

datatype pyval =
    PStr string
  | PInt int
  | PTimedelta int int int
  | PRange int int int
  | PSeq string "pyval list"
  | POpaque string

text \<open>The exceptions that the modelled code paths can raise.\<close>

datatype pyerr =
    TypeError
  | ValueError
  | IndexError
  | AttributeError
  | CalledProcessError
  | OSError
  | FileNotFoundError
  | UnicodeDecodeError

subsection \<open>Decimal text of integers\<close>

definition digit_char :: "nat \<Rightarrow> char" where
  "digit_char d = char_of (48 + d)"

fun dec :: "nat \<Rightarrow> string" where
  "dec n = (if n < 10 then [digit_char n] else dec (n div 10) @ [digit_char (n mod 10)])"

declare dec.simps [simp del]

text \<open>\<^verbatim>\<open>str(i)\<close> for an integer \<open>i\<close>.\<close>

definition str_int :: "int \<Rightarrow> string" where
  "str_int i = (if i < 0 then CHR ''-'' # dec (nat (- i)) else dec (nat i))"

text \<open>The format specification \<^verbatim>\<open>:02\<close> of an f-string: at least two characters, padded
  with zeros on the left (a negative number already has two).\<close>

definition fmt02 :: "int \<Rightarrow> string" where
  "fmt02 i = (if 0 \<le> i \<and> i < 10 then CHR ''0'' # str_int i else str_int i)"

text \<open>The format \<^verbatim>\<open>%06d\<close> used by \<^verbatim>\<open>timedelta.__str__\<close> for the microseconds.\<close>

definition fmt06 :: "int \<Rightarrow> string" where
  "fmt06 i = (let s = str_int i in replicate (6 - length s) (CHR ''0'') @ s)"

subsection \<open>Range objects\<close>

text \<open>\<^verbatim>\<open>len(range(a, b, st))\<close>; Python refuses a zero step when the range is built, so
  a range object always has \<open>st \<noteq> 0\<close>.\<close>

definition range_len :: "int \<Rightarrow> int \<Rightarrow> int \<Rightarrow> nat" where
  "range_len a b st =
     (if 0 < st then (if a < b then nat ((b - a - 1) div st + 1) else 0)
      else if st < 0 then (if b < a then nat ((a - b - 1) div (- st) + 1) else 0)
      else 0)"

text \<open>Iterating a range object yields its elements in order.\<close>

definition range_elems :: "int \<Rightarrow> int \<Rightarrow> int \<Rightarrow> int list" where
  "range_elems a b st = map (\<lambda>i. a + int i * st) [0 ..< range_len a b st]"

subsection \<open>\<^verbatim>\<open>str()\<close> of a value\<close>

text \<open>\<^verbatim>\<open>timedelta.__str__\<close>: \<^verbatim>\<open>[D day[s], ]H:MM:SS[.UUUUUU]\<close>.\<close>

definition str_timedelta :: "int \<Rightarrow> int \<Rightarrow> int \<Rightarrow> string" where
  "str_timedelta d s us =
     (let mm = s div 60; ss = s mod 60; hh = mm div 60; mm2 = mm mod 60;
          t = str_int hh @ '':'' @ fmt02 mm2 @ '':'' @ fmt02 ss;
          t2 = (if d \<noteq> 0
                then str_int d @ '' day'' @ (if \<bar>d\<bar> \<noteq> 1 then ''s'' else '''') @ '', '' @ t
                else t)
      in if us \<noteq> 0 then t2 @ ''.'' @ fmt06 us else t2)"

fun py_str :: "pyval \<Rightarrow> string" where
  "py_str (PStr s) = s"
| "py_str (PInt i) = str_int i"
| "py_str (PTimedelta d s us) = str_timedelta d s us"
| "py_str (PRange a b st) =
     (if st = 1 then ''range('' @ str_int a @ '', '' @ str_int b @ '')''
      else ''range('' @ str_int a @ '', '' @ str_int b @ '', '' @ str_int st @ '')'')"
| "py_str (PSeq t xs) = t"
| "py_str (POpaque s) = s"

section \<open>SlurmConfig\<close>

text \<open>
  An instance of \<^verbatim>\<open>SlurmConfig\<close> has the attributes \<^verbatim>\<open>_args\<close> (a dict, which keeps
  insertion order), \<^verbatim>\<open>_commands\<close> (a list) and \<^verbatim>\<open>shell\<close>, and one further attribute
  per directive, put there by \<^verbatim>\<open>setattr\<close>. The dict is an association list with
  distinct keys in insertion order; the further attributes are the association list
  \<open>attrs\<close>.
\<close>

record SlurmConfig =
  args :: "(string \<times> pyval) list"
  commands :: "pyval list"
  shell :: pyval
  attrs :: "(string \<times> pyval) list"

text \<open>\<^verbatim>\<open>d[key] = val\<close> on a dict: an existing key keeps its position, a new key goes
  to the end.\<close>

fun dict_set :: "string \<Rightarrow> 'v \<Rightarrow> (string \<times> 'v) list \<Rightarrow> (string \<times> 'v) list" where
  "dict_set k v [] = [(k, v)]"
| "dict_set k v ((k', v') # kvs) =
     (if k' = k then (k, v) # kvs else (k', v') # dict_set k v kvs)"

text \<open>\<^verbatim>\<open>str.replace('_', '-')\<close>.\<close>

definition hyphenate :: "string \<Rightarrow> string" where
  "hyphenate s = map (\<lambda>c. if c = CHR ''_'' then CHR ''-'' else c) s"

text \<open>
  \<^verbatim>\<open>SlurmConfig.__str__\<close> (lines 50-57). The method runs on the object and returns the
  text; the object is threaded through both loops so that what the method leaves behind
  is part of the model. \<open>str_args_step\<close> is the body of the first loop (the loop
  variable \<^verbatim>\<open>arg\<close> is rebound to the hyphenated name), \<open>str_commands_step\<close> the body of
  the second.
\<close>

definition str_args_step :: "string \<times> pyval \<Rightarrow> string \<times> SlurmConfig \<Rightarrow> string \<times> SlurmConfig" where
  "str_args_step kv st =
     (case kv of (arg, val) \<Rightarrow> case st of (s, self) \<Rightarrow>
        (let arg' = hyphenate arg
         in (s @ [CHR 0x0A] @ ''#SBATCH --'' @ arg' @ ''='' @ py_str val, self)))"

definition str_commands_step :: "pyval \<Rightarrow> string \<times> SlurmConfig \<Rightarrow> string \<times> SlurmConfig" where
  "str_commands_step command st =
     (case st of (s, self) \<Rightarrow> (s @ [CHR 0x0A] @ py_str command, self))"

definition SlurmConfig_str :: "SlurmConfig \<Rightarrow> string \<times> SlurmConfig" where
  "SlurmConfig_str self =
     (let st0 = (''#!'' @ py_str (shell self), self);
          st1 = foldl (\<lambda>st kv. str_args_step kv st) st0 (args self);
          st2 = foldl (\<lambda>st c. str_commands_step c st) st1 (commands self)
      in st2)"

text \<open>The rendered text alone.\<close>

definition render :: "SlurmConfig \<Rightarrow> string" where
  "render self = fst (SlurmConfig_str self)"

text \<open>\<^verbatim>\<open>SlurmConfig.add_command\<close> (line 68).\<close>

definition add_command :: "pyval \<Rightarrow> SlurmConfig \<Rightarrow> SlurmConfig" where
  "add_command cmd self = self\<lparr>commands := commands self @ [cmd]\<rparr>"

text \<open>\<^verbatim>\<open>SlurmConfig.is_array_job\<close> (line 79).\<close>

definition is_array_job :: "SlurmConfig \<Rightarrow> bool" where
  "is_array_job self = (''array'' \<in> set (map fst (args self)))"

section \<open>The process boundary\<close>

text \<open>
  Every scheduler command goes through \<^verbatim>\<open>subprocess.run(argv, capture_output=True,
  text=True, check=True)\<close>. The outside world is a record: \<open>respond\<close> gives the completed
  process for an argument list (it may depend on the calls made before), and \<open>trace\<close>
  lists the argument lists passed so far, oldest first. \<open>run_error\<close> is the exception
  that \<^verbatim>\<open>subprocess.run\<close> raises before it looks at the exit status, if any:
  \<^verbatim>\<open>FileNotFoundError\<close> or another \<^verbatim>\<open>OSError\<close> when the command cannot be started,
  \<^verbatim>\<open>UnicodeDecodeError\<close> when its output is no text. Otherwise, with \<^verbatim>\<open>check=True\<close>, a
  non-zero exit status raises \<^verbatim>\<open>CalledProcessError\<close>.
\<close>

record proc =
  returncode :: int
  proc_stdout :: string
  proc_stderr :: string

record world =
  respond :: "string list list \<Rightarrow> string list \<Rightarrow> proc"
  run_error :: "string list list \<Rightarrow> string list \<Rightarrow> pyerr option"
  trace :: "string list list"
  class_job_name :: "pyval option"
  fs_mkdir :: "pyerr option"
  fs_pickle :: "pyerr option"
  fs_script :: "pyerr + string"

text \<open>
  The other fields of the world are the parts of the program's surroundings that
  \<^verbatim>\<open>Slurm.sbatch\<close> touches before it runs the submit command:
  \<^item> \<open>class_job_name\<close>: the class attribute \<^verbatim>\<open>SlurmConfig.job_name\<close>, which exists
    (with value \<^verbatim>\<open>''\<close>) once \<^verbatim>\<open>SlurmConfig.from_yaml\<close> has run (line 99);
  \<^item> \<open>fs_mkdir\<close>: the exception raised by \<^verbatim>\<open>output_path.mkdir(exist_ok=True)\<close>, if any;
  \<^item> \<open>fs_pickle\<close>: the exception raised by \<^verbatim>\<open>_serialize_config\<close>, if any;
  \<^item> \<open>fs_script\<close>: the exception raised by \<^verbatim>\<open>_write_submission_script\<close>, or the path
    of the script it wrote.
\<close>

definition subprocess_run :: "string list \<Rightarrow> world \<Rightarrow> (pyerr + proc) \<times> world" where
  "subprocess_run argv w =
     (let w' = w\<lparr>trace := trace w @ [argv]\<rparr>
      in (case run_error w (trace w) argv of
            Some e \<Rightarrow> (Inl e, w')
          | None \<Rightarrow>
              (let p = respond w (trace w) argv
               in (if returncode p \<noteq> 0 then Inl CalledProcessError else Inr p, w'))))"

subsection \<open>Text operations\<close>

text \<open>\<^verbatim>\<open>str.isspace\<close> on one character, for the characters below 256.\<close>

definition py_isspace :: "char \<Rightarrow> bool" where
  "py_isspace c = ((of_char c :: nat) \<in> set [9, 10, 11, 12, 13, 28, 29, 30, 31, 32, 133, 160])"

text \<open>Dropping the characters of a class from both ends of a text.\<close>

definition strip_with :: "(char \<Rightarrow> bool) \<Rightarrow> string \<Rightarrow> string" where
  "strip_with sp s = rev (dropWhile sp (rev (dropWhile sp s)))"

text \<open>\<^verbatim>\<open>str.strip()\<close>.\<close>

definition py_strip :: "string \<Rightarrow> string" where
  "py_strip s = strip_with py_isspace s"

text \<open>\<^verbatim>\<open>str.split(sep)\<close> for a separator of one character: always at least one piece.\<close>

fun split_on :: "char \<Rightarrow> string \<Rightarrow> string list" where
  "split_on sep [] = [[]]"
| "split_on sep (c # cs) =
     (if c = sep then [] # split_on sep cs
      else (case split_on sep cs of [] \<Rightarrow> [[c]] | p # ps \<Rightarrow> (c # p) # ps))"

text \<open>\<^verbatim>\<open>key, val = attr.split(sep, 1)\<close>: the text before and after the first separator;
  without a separator the unpacking raises \<^verbatim>\<open>ValueError\<close>.\<close>

definition split_first :: "char \<Rightarrow> string \<Rightarrow> pyerr + string \<times> string" where
  "split_first sep s =
     (if sep \<in> set s
      then Inr (takeWhile (\<lambda>c. c \<noteq> sep) s, tl (dropWhile (\<lambda>c. c \<noteq> sep) s))
      else Inl ValueError)"

definition is_digit :: "char \<Rightarrow> bool" where
  "is_digit c = (48 \<le> (of_char c :: nat) \<and> (of_char c :: nat) \<le> 57)"

section \<open>Slurm and SlurmJob\<close>

text \<open>
  A \<^verbatim>\<open>SlurmJob\<close> keeps its job id, its array index, the combined id of an array task
  (set only for an array job) and the attributes \<^verbatim>\<open>scontrol\<close> reported. A \<^verbatim>\<open>Slurm\<close>
  object has the attribute \<^verbatim>\<open>config\<close>; \<^verbatim>\<open>stdout\<close>, \<^verbatim>\<open>stderr\<close>, \<^verbatim>\<open>jobs\<close> and
  \<^verbatim>\<open>job_id\<close> exist only once \<^verbatim>\<open>sbatch\<close> has set them.
\<close>

record SlurmJob =
  job_id :: string
  array_num :: int
  array_job_id :: "string option"
  submission_details :: "(string \<times> string) list"

record Slurm =
  config :: SlurmConfig
  stdout :: "string option"
  stderr :: "string option"
  jobs :: "SlurmJob list option"
  slurm_job_id :: "string option"

subsection \<open>The accessors of the manager\<close>

text \<open>
  \<^verbatim>\<open>get_arguments\<close> (line 193) and \<^verbatim>\<open>get_commands\<close> (line 204) return an attribute of
  the configuration: the object itself, not a copy. A \<open>member\<close> names which of the two
  containers of the configuration is handed out, and \<open>deref\<close> is the object it stands
  for.
\<close>

datatype member = Member_args | Member_commands

datatype pyobj = DictObj "(string \<times> pyval) list" | ListObj "pyval list"

fun deref :: "SlurmConfig \<Rightarrow> member \<Rightarrow> pyobj" where
  "deref c Member_args = DictObj (args c)"
| "deref c Member_commands = ListObj (commands c)"

definition get_arguments :: "Slurm \<Rightarrow> member" where
  "get_arguments self = Member_args"

definition get_commands :: "Slurm \<Rightarrow> member" where
  "get_commands self = Member_args"

subsection \<open>SlurmJob: status and cancellation\<close>

definition NOT_FOUND :: string where
  "NOT_FOUND = ''COMPLETED or NOT FOUND''"

text \<open>\<^verbatim>\<open>SlurmJob.get_status\<close> (lines 371-378): only \<^verbatim>\<open>CalledProcessError\<close> is caught.\<close>

definition get_status :: "SlurmJob \<Rightarrow> world \<Rightarrow> (pyerr + string) \<times> world" where
  "get_status self w =
     (case subprocess_run [''squeue'', ''-j'', job_id self, ''-h'', ''-o'', ''%T''] w of
        (Inr process, w') \<Rightarrow>
          (if proc_stdout process \<noteq> [] then (Inr (py_strip (proc_stdout process)), w')
           else (Inr NOT_FOUND, w'))
      | (Inl e, w') \<Rightarrow>
          (if e = CalledProcessError then (Inr NOT_FOUND, w') else (Inl e, w')))"

text \<open>\<^verbatim>\<open>SlurmJob.is_queued\<close> (line 404).\<close>

definition is_queued :: "SlurmJob \<Rightarrow> world \<Rightarrow> (pyerr + bool) \<times> world" where
  "is_queued self w =
     (case get_status self w of
        (Inr status, w') \<Rightarrow> (Inr (status \<in> set [''PENDING'', ''RUNNING'']), w')
      | (Inl e, w') \<Rightarrow> (Inl e, w'))"



section \<open>Value normalisation in \<^verbatim>\<open>Slurm.add_arguments\<close>\<close>

subsection \<open>\<^verbatim>\<open>int()\<close>\<close>

text \<open>
  \<^verbatim>\<open>int(s)\<close> for a string: surrounding whitespace is dropped, one sign is allowed, and
  the rest must be decimal digits, where single underscores may separate digits. Anything
  else raises \<^verbatim>\<open>ValueError\<close>. The whitespace that \<^verbatim>\<open>int\<close> drops is that of
  \<^verbatim>\<open>str.isspace\<close> without the four separator characters 28 to 31.
\<close>

definition int_isspace :: "char \<Rightarrow> bool" where
  "int_isspace c = ((of_char c :: nat) \<in> set [9, 10, 11, 12, 13, 32, 133, 160])"

definition digits_value :: "string \<Rightarrow> nat" where
  "digits_value ds = foldl (\<lambda>a c. 10 * a + (of_char c - 48)) 0 ds"

definition py_int_digits :: "string \<Rightarrow> pyerr + nat" where
  "py_int_digits s =
     (let groups = split_on (CHR ''_'') s
      in if list_all (\<lambda>g. g \<noteq> [] \<and> list_all is_digit g) groups
         then Inr (digits_value (concat groups))
         else Inl ValueError)"

definition py_int_str :: "string \<Rightarrow> pyerr + int" where
  "py_int_str s =
     (case strip_with int_isspace s of
        [] \<Rightarrow> Inl ValueError
      | c # r \<Rightarrow>
          if c = CHR ''-'' then map_sum id (\<lambda>n. - int n) (py_int_digits r)
          else if c = CHR ''+'' then map_sum id int (py_int_digits r)
          else map_sum id int (py_int_digits (c # r)))"

text \<open>\<^verbatim>\<open>int(x)\<close> for a value.\<close>

fun py_int :: "pyval \<Rightarrow> pyerr + int" where
  "py_int (PInt i) = Inr i"
| "py_int (PStr s) = py_int_str s"
| "py_int (PTimedelta d s us) = Inl TypeError"
| "py_int (PRange a b st) = Inl TypeError"
| "py_int (PSeq t xs) = Inl TypeError"
| "py_int (POpaque s) = Inl TypeError"

text \<open>\<^verbatim>\<open>list(map(int, pieces))\<close>: the first piece that is no integer raises.\<close>

fun map_int :: "string list \<Rightarrow> pyerr + int list" where
  "map_int [] = Inr []"
| "map_int (p # ps) =
     (case py_int_str p of
        Inl e \<Rightarrow> Inl e
      | Inr i \<Rightarrow> (case map_int ps of Inl e \<Rightarrow> Inl e | Inr js \<Rightarrow> Inr (i # js)))"

subsection \<open>Subscripting and iteration\<close>

text \<open>\<^verbatim>\<open>xs[i]\<close> on a sequence: a negative index counts from the end, an index out of
  range raises \<^verbatim>\<open>IndexError\<close>.\<close>

definition list_getitem :: "'a list \<Rightarrow> int \<Rightarrow> pyerr + 'a" where
  "list_getitem xs i =
     (let len = int (length xs);
          pos = (if i < 0 then i + len else i)
      in if pos < 0 \<or> len \<le> pos then Inl IndexError else Inr (xs ! nat pos))"

fun py_getitem :: "pyval \<Rightarrow> int \<Rightarrow> pyerr + pyval" where
  "py_getitem (PRange a b st) i = map_sum id PInt (list_getitem (range_elems a b st) i)"
| "py_getitem (PStr s) i = map_sum id (\<lambda>c. PStr [c]) (list_getitem s i)"
| "py_getitem (PInt n) i = Inl TypeError"
| "py_getitem (PTimedelta d s us) i = Inl TypeError"
| "py_getitem (PSeq t xs) i = list_getitem xs i"
| "py_getitem (POpaque s) i = Inl TypeError"

text \<open>\<^verbatim>\<open>for i in x\<close>: the elements that the iteration yields.\<close>

fun py_iter :: "pyval \<Rightarrow> pyerr + pyval list" where
  "py_iter (PRange a b st) = Inr (map PInt (range_elems a b st))"
| "py_iter (PStr s) = Inr (map (\<lambda>c. PStr [c]) s)"
| "py_iter (PInt n) = Inl TypeError"
| "py_iter (PTimedelta d s us) = Inl TypeError"
| "py_iter (PSeq t xs) = Inr xs"
| "py_iter (POpaque s) = Inl TypeError"

subsection \<open>\<^verbatim>\<open>int(val.total_seconds())\<close>\<close>

text \<open>
  \<^verbatim>\<open>timedelta.total_seconds()\<close> divides the duration in microseconds by \<open>10\<^sup>6\<close> with
  Python's true division of integers, which gives the binary64 number nearest to the
  quotient (ties to even). \<open>true_divide p q\<close> is that number for positive \<open>p\<close> and \<open>q\<close>,
  as a pair \<open>(m, e)\<close> standing for \<open>m \<times> 2\<^sup>e\<close> with a significand of 53 bits; the
  quotients of a timedelta lie between \<open>10\<^sup>-\<^sup>6\<close> and \<open>10\<^sup>1\<^sup>4\<close>, inside the normal range
  of binary64. \<^verbatim>\<open>int()\<close> of a float drops the fraction.
\<close>

function bit_length :: "int \<Rightarrow> int" where
  "bit_length n = (if n \<le> 0 then 0 else bit_length (n div 2) + 1)"
  by pat_completeness auto
termination
  by (relation "measure nat") auto

declare bit_length.simps [simp del]

definition round_half_even :: "int \<Rightarrow> int \<Rightarrow> int" where
  "round_half_even p q =
     (let f = p div q; r = p mod q
      in if 2 * r < q then f else if q < 2 * r then f + 1 else if even f then f else f + 1)"

text \<open>The integer \<open>E\<close> with \<open>2\<^sup>E \<le> p / q < 2\<^sup>E\<^sup>+\<^sup>1\<close>.\<close>

definition floor_log2_ratio :: "int \<Rightarrow> int \<Rightarrow> int" where
  "floor_log2_ratio p q =
     (let d = bit_length p - bit_length q
      in if (if 0 \<le> d then q * 2 ^ nat d \<le> p else q \<le> p * 2 ^ nat (- d)) then d else d - 1)"

definition true_divide :: "int \<Rightarrow> int \<Rightarrow> int \<times> int" where
  "true_divide p q =
     (let e = floor_log2_ratio p q - 52;
          m = (if 0 \<le> e then round_half_even p (q * 2 ^ nat e)
               else round_half_even (p * 2 ^ nat (- e)) q)
      in (m, e))"

definition float_to_int :: "int \<times> int \<Rightarrow> int" where
  "float_to_int f = (case f of (m, e) \<Rightarrow> if 0 \<le> e then m * 2 ^ nat e else m div 2 ^ nat (- e))"

definition total_microseconds :: "int \<Rightarrow> int \<Rightarrow> int \<Rightarrow> int" where
  "total_microseconds d s us = (d * 86400 + s) * 10 ^ 6 + us"

definition int_total_seconds :: "int \<Rightarrow> int \<Rightarrow> int \<Rightarrow> int" where
  "int_total_seconds d s us =
     (let a = total_microseconds d s us
      in if a = 0 then 0
         else if 0 < a then float_to_int (true_divide a (10 ^ 6))
         else - float_to_int (true_divide (- a) (10 ^ 6)))"

text \<open>The fields of a timedelta object as Python keeps them.\<close>

definition valid_timedelta :: "int \<Rightarrow> int \<Rightarrow> int \<Rightarrow> bool" where
  "valid_timedelta d s us =
     (- 999999999 \<le> d \<and> d \<le> 999999999 \<and> 0 \<le> s \<and> s < 86400 \<and> 0 \<le> us \<and> us < 10 ^ 6)"

subsection \<open>The two special directives\<close>

text \<open>Lines 149-155: the text stored for a timedelta under \<^verbatim>\<open>time\<close>.\<close>

definition time_text :: "int \<Rightarrow> int \<Rightarrow> int \<Rightarrow> string" where
  "time_text d s us =
     (let total_s = int_total_seconds d s us;
          days = total_s div 86400; rem = total_s mod 86400;
          hours = rem div 3600; rem' = rem mod 3600;
          minutes = rem' div 60; seconds = rem' mod 60
      in str_int days @ ''-'' @ fmt02 hours @ '':'' @ fmt02 minutes @ '':'' @ fmt02 seconds)"

text \<open>Lines 158-163: the value that \<^verbatim>\<open>val\<close> is rebound to under \<^verbatim>\<open>array\<close>. A string is
  split at hyphens and a range is built from the first and the last piece; an integer
  \<open>n\<close> gives \<^verbatim>\<open>range(0, n+1)\<close>; any other value is left as it is.\<close>

definition array_range :: "pyval \<Rightarrow> pyerr + pyval" where
  "array_range val =
     (case val of
        PStr s \<Rightarrow>
          (case map_int (split_on (CHR ''-'') s) of
             Inl e \<Rightarrow> Inl e
           | Inr ns \<Rightarrow>
               (case list_getitem ns 0 of
                  Inl e \<Rightarrow> Inl e
                | Inr lo \<Rightarrow>
                    (case list_getitem ns (- 1) of
                       Inl e \<Rightarrow> Inl e
                     | Inr hi \<Rightarrow> Inr (PRange lo (hi + 1) 1))))
      | PInt n \<Rightarrow> Inr (PRange 0 (n + 1) 1)
      | _ \<Rightarrow> Inr val)"

text \<open>Line 164: the text \<^verbatim>\<open>f'{val[0]}-{val[-1]}'\<close>.\<close>

definition array_text :: "pyval \<Rightarrow> pyerr + string" where
  "array_text val =
     (case py_getitem val 0 of
        Inl e \<Rightarrow> Inl e
      | Inr lo \<Rightarrow>
          (case py_getitem val (- 1) of
             Inl e \<Rightarrow> Inl e
           | Inr hi \<Rightarrow> Inr (py_str lo @ ''-'' @ py_str hi)))"

subsection \<open>\<^verbatim>\<open>Slurm.add_arguments\<close>\<close>

text \<open>
  \<^verbatim>\<open>setattr(self.config, key, val)\<close> gives the configuration object an attribute named
  after the directive. A directive named \<^verbatim>\<open>shell\<close> replaces the shell. A name that
  belongs to the object itself (\<^verbatim>\<open>_args\<close>, \<^verbatim>\<open>_commands\<close>, a method, a special attribute)
  would replace that member; \<open>member_name\<close> covers these names, and a call with such a
  name is not described by this model: it ends in \<open>OutsideModel\<close>, which is no Python
  exception. A keyword named \<^verbatim>\<open>self\<close> clashes with the method's own parameter, and the
  call raises \<^verbatim>\<open>TypeError\<close> before the body runs.
\<close>

datatype 'a outcome = Done 'a | Raised pyerr 'a | OutsideModel

definition member_name :: "string \<Rightarrow> bool" where
  "member_name k =
     (take 1 k = ''_'' \<or> k \<in> set [''add_command'', ''is_array_job'', ''from_yaml''])"

definition setattr_config :: "string \<Rightarrow> pyval \<Rightarrow> SlurmConfig \<Rightarrow> SlurmConfig" where
  "setattr_config key val c =
     (if key = ''shell'' then c\<lparr>shell := val\<rparr>
      else c\<lparr>attrs := dict_set key val (attrs c)\<rparr>)"

text \<open>The body of the loop of \<^verbatim>\<open>add_arguments\<close> (lines 148-169) for one keyword, on the
  configuration of the manager. \<open>Raised e c\<close> is the exception \<open>e\<close> leaving the
  configuration as \<open>c\<close>.\<close>

definition add_argument :: "string \<times> pyval \<Rightarrow> SlurmConfig \<Rightarrow> SlurmConfig outcome" where
  "add_argument kv c =
     (case kv of (key, val0) \<Rightarrow>
        (let val = (case val0 of
                      PTimedelta d s us \<Rightarrow> if key = ''time'' then PStr (time_text d s us) else val0
                    | _ \<Rightarrow> val0)
         in if key = ''array''
            then (case array_range val of
                    Inl e \<Rightarrow> Raised e c
                  | Inr val' \<Rightarrow>
                      (case array_text val' of
                         Inl e \<Rightarrow> Raised e c
                       | Inr t \<Rightarrow>
                           Done (setattr_config key val' (c\<lparr>args := dict_set key (PStr t) (args c)\<rparr>))))
            else Done (setattr_config key val (c\<lparr>args := dict_set key val (args c)\<rparr>))))"

fun add_arguments_loop :: "(string \<times> pyval) list \<Rightarrow> SlurmConfig \<Rightarrow> SlurmConfig outcome" where
  "add_arguments_loop [] c = Done c"
| "add_arguments_loop (kv # kvs) c =
     (case add_argument kv c of
        Done c' \<Rightarrow> add_arguments_loop kvs c'
      | Raised e c' \<Rightarrow> Raised e c'
      | OutsideModel \<Rightarrow> OutsideModel)"

text \<open>\<^verbatim>\<open>Slurm.add_arguments(**kwargs)\<close>, with the keywords in the order of the call.\<close>

definition add_arguments :: "(string \<times> pyval) list \<Rightarrow> Slurm \<Rightarrow> Slurm outcome" where
  "add_arguments kwargs self =
     (if ''self'' \<in> set (map fst kwargs) then Raised TypeError self
      else if list_ex member_name (map fst kwargs) then OutsideModel
      else (case add_arguments_loop kwargs (config self) of
              Done c \<Rightarrow> Done (self\<lparr>config := c\<rparr>)
            | Raised e c \<Rightarrow> Raised e (self\<lparr>config := c\<rparr>)
            | OutsideModel \<Rightarrow> OutsideModel))"

text \<open>\<^verbatim>\<open>Slurm.add_commands(*args)\<close> (lines 181-182).\<close>

definition add_commands :: "pyval list \<Rightarrow> Slurm \<Rightarrow> Slurm" where
  "add_commands cmds self =
     self\<lparr>config := foldl (\<lambda>c cmd. c\<lparr>commands := commands c @ [cmd]\<rparr>) (config self) cmds\<rparr>"

section \<open>Submission\<close>

subsection \<open>\<^verbatim>\<open>SlurmJob.__init__\<close>\<close>

text \<open>\<^verbatim>\<open>SlurmJob._get_scontrol_attrs\<close> (lines 351-358): the output of \<^verbatim>\<open>scontrol show job\<close>
  is split at spaces; every piece that is not blank must hold a \<^verbatim>\<open>=\<close>.\<close>

fun parse_attrs :: "string list \<Rightarrow> (string \<times> string) list \<Rightarrow> pyerr + (string \<times> string) list" where
  "parse_attrs [] details = Inr details"
| "parse_attrs (attr # rest) details =
     (let attr' = py_strip attr
      in if attr' \<noteq> []
         then (case split_first (CHR ''='') attr' of
                 Inl e \<Rightarrow> Inl e
               | Inr (key, val) \<Rightarrow> parse_attrs rest (dict_set key val details))
         else parse_attrs rest details)"

definition get_scontrol_attrs :: "string \<Rightarrow> world \<Rightarrow> (pyerr + (string \<times> string) list) \<times> world" where
  "get_scontrol_attrs jid w =
     (case subprocess_run [''scontrol'', ''show'', ''job'', jid] w of
        (Inl e, w') \<Rightarrow> (Inl e, w')
      | (Inr process, w') \<Rightarrow> (parse_attrs (split_on (CHR '' '') (proc_stdout process)) [], w'))"

text \<open>
  \<^verbatim>\<open>SlurmJob.__init__(self, job_id, slurm, array_num)\<close> (lines 312-333). The parameter
  \<^verbatim>\<open>array_num\<close> has no default value, so a call that leaves it out raises \<^verbatim>\<open>TypeError\<close>
  before the body runs; the argument is \<open>None\<close> for such a call. Line 328 copies the
  attributes of the manager into the handle, its \<^verbatim>\<open>job_id\<close> (when it has one) over the
  one just stored.
\<close>

definition SlurmJob_init ::
  "string \<Rightarrow> Slurm \<Rightarrow> pyval option \<Rightarrow> world \<Rightarrow> (pyerr + SlurmJob) \<times> world" where
  "SlurmJob_init jid slurm array_num_arg w =
     (case array_num_arg of
        None \<Rightarrow> (Inl TypeError, w)
      | Some a \<Rightarrow>
          (case py_int a of
             Inl e \<Rightarrow> (Inl e, w)
           | Inr n \<Rightarrow>
               (let jid' = (case slurm_job_id slurm of Some j \<Rightarrow> j | None \<Rightarrow> jid);
                    ajid = (if is_array_job (config slurm)
                            then Some (jid' @ ''_'' @ str_int n) else None)
                in (case get_scontrol_attrs jid' w of
                      (Inl e, w') \<Rightarrow> (Inl e, w')
                    | (Inr details, w') \<Rightarrow>
                        (Inr \<lparr>job_id = jid', array_num = n, array_job_id = ajid,
                              submission_details = details\<rparr>, w')))))"

subsection \<open>\<^verbatim>\<open>Slurm.sbatch\<close>\<close>

text \<open>\<^verbatim>\<open>re.search(r"Submitted batch job (\d+)", text)\<close>: the first group of the leftmost
  match, that is the longest run of digits after the leftmost occurrence of the prefix
  that a digit follows.\<close>

definition match_job_id :: "string \<Rightarrow> string option" where
  "match_job_id s =
     (let prefix = ''Submitted batch job ''
      in if take (length prefix) s = prefix
         then (let ds = takeWhile is_digit (drop (length prefix) s)
               in if ds = [] then None else Some ds)
         else None)"

fun search_job_id :: "string \<Rightarrow> string option" where
  "search_job_id [] = match_job_id []"
| "search_job_id (c # cs) =
     (case match_job_id (c # cs) of Some g \<Rightarrow> Some g | None \<Rightarrow> search_job_id cs)"

text \<open>Reading the attributes \<^verbatim>\<open>job_name\<close> and \<^verbatim>\<open>array\<close> of the configuration: the
  attribute of the instance, else the attribute of the class, else \<^verbatim>\<open>AttributeError\<close>.\<close>

definition config_job_name :: "world \<Rightarrow> SlurmConfig \<Rightarrow> pyerr + pyval" where
  "config_job_name w c =
     (case map_of (attrs c) ''job_name'' of
        Some v \<Rightarrow> Inr v
      | None \<Rightarrow> (case class_job_name w of Some v \<Rightarrow> Inr v | None \<Rightarrow> Inl AttributeError))"

definition config_array :: "SlurmConfig \<Rightarrow> pyerr + pyval" where
  "config_array c =
     (case map_of (attrs c) ''array'' of Some v \<Rightarrow> Inr v | None \<Rightarrow> Inl AttributeError)"

text \<open>Lines 283 and 284: each evaluates \<^verbatim>\<open>self.config.job_name\<close> for the file name and
  then works on the file system; the outcome of the latter is given by the world.\<close>

definition serialize_config :: "Slurm \<Rightarrow> world \<Rightarrow> pyerr option" where
  "serialize_config self w =
     (case config_job_name w (config self) of Inl e \<Rightarrow> Some e | Inr name \<Rightarrow> fs_pickle w)"

definition write_submission_script :: "Slurm \<Rightarrow> world \<Rightarrow> pyerr + string" where
  "write_submission_script self w =
     (case config_job_name w (config self) of Inl e \<Rightarrow> Inl e | Inr name \<Rightarrow> fs_script w)"

text \<open>The list comprehension of line 297: one handle per element, built in order.\<close>

fun make_jobs :: "string \<Rightarrow> Slurm \<Rightarrow> pyval list \<Rightarrow> world \<Rightarrow> (pyerr + SlurmJob list) \<times> world" where
  "make_jobs jid slurm [] w = (Inr [], w)"
| "make_jobs jid slurm (i # rest) w =
     (case SlurmJob_init jid slurm (Some i) w of
        (Inl e, w') \<Rightarrow> (Inl e, w')
      | (Inr j, w') \<Rightarrow>
          (case make_jobs jid slurm rest w' of
             (Inl e, w'') \<Rightarrow> (Inl e, w'')
           | (Inr js, w'') \<Rightarrow> (Inr (j # js), w'')))"

text \<open>
  \<^verbatim>\<open>Slurm.sbatch(shell, save_configuration, output_path)\<close> (lines 275-300). The result is
  the value returned or the exception raised, the manager and the world afterwards. The
  local \<^verbatim>\<open>shell\<close> of line 275 is never read again, and \<^verbatim>\<open>output_path\<close> only chooses
  where the files go, so neither parameter changes the result.
\<close>

definition sbatch ::
  "pyval option \<Rightarrow> bool \<Rightarrow> string option \<Rightarrow> Slurm \<Rightarrow> world
     \<Rightarrow> (pyerr + SlurmJob list) \<times> Slurm \<times> world" where
  "sbatch shell_arg save_configuration output_path self w =
     (case fs_mkdir w of
        Some e \<Rightarrow> (Inl e, self, w)
      | None \<Rightarrow>
     (case (if save_configuration then serialize_config self w else None) of
        Some e \<Rightarrow> (Inl e, self, w)
      | None \<Rightarrow>
     (case write_submission_script self w of
        Inl e \<Rightarrow> (Inl e, self, w)
      | Inr submission_script_path \<Rightarrow>
     (case subprocess_run [''sbatch'', submission_script_path] w of
        (Inl e, w1) \<Rightarrow> (Inl e, self, w1)
      | (Inr process, w1) \<Rightarrow>
          (let match = search_job_id (proc_stdout process);
               self1 = self\<lparr>stdout := Some (proc_stdout process),
                            stderr := Some (proc_stderr process),
                            jobs := Some []\<rparr>
           in (case match of
                 None \<Rightarrow> (Inr [], self1, w1)
               | Some g \<Rightarrow>
                   (let self2 = self1\<lparr>slurm_job_id := Some g\<rparr>
                    in if is_array_job (config self2)
                       then (case config_array (config self2) of
                               Inl e \<Rightarrow> (Inl e, self2, w1)
                             | Inr arr \<Rightarrow>
                                 (case py_iter arr of
                                    Inl e \<Rightarrow> (Inl e, self2, w1)
                                  | Inr items \<Rightarrow>
                                      (case make_jobs g self2 items w1 of
                                         (Inl e, w2) \<Rightarrow> (Inl e, self2, w2)
                                       | (Inr js, w2) \<Rightarrow> (Inr js, self2\<lparr>jobs := Some js\<rparr>, w2))))
                       else (case SlurmJob_init g self2 None w1 of
                               (Inl e, w2) \<Rightarrow> (Inl e, self2, w2)
                             | (Inr j, w2) \<Rightarrow> (Inr [j], self2\<lparr>jobs := Some [j]\<rparr>, w2)))))))))"

section \<open>Reading a stored duration back\<close>

text \<open>
  The round-trip property of the specification reads the text \<^verbatim>\<open>D-HH:MM:SS\<close> back
  into a number of seconds. This is the specification's side of the comparison, not code
  of the module: the text is split at the colons, its first part at the last hyphen, and
  the four fields are read as integers and added up with 86400, 3600 and 60 seconds.
\<close>

definition split_last :: "char \<Rightarrow> string \<Rightarrow> (string \<times> string) option" where
  "split_last sep s =
     (if sep \<in> set s
      then Some (rev (tl (dropWhile (\<lambda>c. c \<noteq> sep) (rev s))),
                 rev (takeWhile (\<lambda>c. c \<noteq> sep) (rev s)))
      else None)"

definition recompose :: "string \<Rightarrow> int option" where
  "recompose t =
     (case split_on (CHR '':'') t of
        [dh, mm, ss] \<Rightarrow>
          (case split_last (CHR ''-'') dh of
             None \<Rightarrow> None
           | Some (dd, hh) \<Rightarrow>
               (case (py_int_str dd, py_int_str hh, py_int_str mm, py_int_str ss) of
                  (Inr days, Inr hours, Inr minutes, Inr seconds) \<Rightarrow>
                    Some (days * 86400 + hours * 3600 + minutes * 60 + seconds)
                | _ \<Rightarrow> None))
      | _ \<Rightarrow> None)"

section \<open>The script as the specification describes it\<close>

text \<open>
  The specification describes the rendered script by its lines: the line \<^verbatim>\<open>#!<shell>\<close>,
  then one line \<^verbatim>\<open>#SBATCH --<name>=<value>\<close> per directive in insertion order, the
  name with hyphens for underscores, then one line per command as it is. This is the
  specification's side of the comparison with \<open>SlurmConfig_str\<close>.
\<close>

definition directive_line :: "string \<times> pyval \<Rightarrow> string" where
  "directive_line kv = ''#SBATCH --'' @ hyphenate (fst kv) @ ''='' @ py_str (snd kv)"

definition script_lines :: "SlurmConfig \<Rightarrow> string list" where
  "script_lines c =
     (''#!'' @ py_str (shell c)) # map directive_line (args c) @ map py_str (commands c)"

text \<open>Lines joined by single newline characters, none after the last.\<close>

fun join_lines :: "string list \<Rightarrow> string" where
  "join_lines [] = []"
| "join_lines [l] = l"
| "join_lines (l # l' # ls) = l @ [CHR 0x0A] @ join_lines (l' # ls)"

section \<open>Concrete inputs\<close>

text \<open>A world in which every command runs, exits with status \<open>rc\<close> and prints \<open>out\<close>, and
  a job handle, used to run the theorems below on concrete inputs.\<close>

definition quiet_world :: "int \<Rightarrow> string \<Rightarrow> world" where
  "quiet_world rc out =
     \<lparr>respond = (\<lambda>tr argv. \<lparr>returncode = rc, proc_stdout = out, proc_stderr = []\<rparr>),
      run_error = (\<lambda>tr argv. None),
      trace = [], class_job_name = None, fs_mkdir = None, fs_pickle = None,
      fs_script = Inr ''job.sh''\<rparr>"

text \<open>A world in which no scheduler command is installed: every call of
  \<^verbatim>\<open>subprocess.run\<close> raises \<^verbatim>\<open>FileNotFoundError\<close>.\<close>

definition no_scheduler_world :: world where
  "no_scheduler_world = (quiet_world 0 [])\<lparr>run_error := (\<lambda>tr argv. Some FileNotFoundError)\<rparr>"

definition job7 :: SlurmJob where
  "job7 = \<lparr>job_id = ''4821'', array_num = 0, array_job_id = None, submission_details = []\<rparr>"

text \<open>The configuration of the module's own example: three directives, two commands,
  and a manager that holds it and has not submitted yet.\<close>

definition cfg0 :: SlurmConfig where
  "cfg0 =
     \<lparr>args = [(''job_name'', PStr ''test''), (''partition'', PStr ''gpu''), (''mem'', PStr ''4G'')],
      commands = [PStr ''sleep 10'', PStr ''echo HI''],
      shell = PStr ''/bin/bash'',
      attrs = [(''job_name'', PStr ''test''), (''partition'', PStr ''gpu''), (''mem'', PStr ''4G'')]\<rparr>"

definition slurm0 :: Slurm where
  "slurm0 = \<lparr>config = cfg0, stdout = None, stderr = None, jobs = None, slurm_job_id = None\<rparr>"

text \<open>The manager after \<^verbatim>\<open>add_arguments(partition='cpu')\<close>.\<close>

definition slurm0_cpu :: Slurm where
  "slurm0_cpu =
     slurm0\<lparr>config := cfg0
       \<lparr>args := [(''job_name'', PStr ''test''), (''partition'', PStr ''cpu''), (''mem'', PStr ''4G'')],
        attrs := [(''job_name'', PStr ''test''), (''partition'', PStr ''cpu''), (''mem'', PStr ''4G'')]\<rparr>\<rparr>"

text \<open>The same shell, directives and commands in an object without further attributes.\<close>

definition cfg0_other :: SlurmConfig where
  "cfg0_other = cfg0\<lparr>attrs := []\<rparr>"

section \<open>Auxiliary facts\<close>

subsection \<open>Decimal text and \<^verbatim>\<open>int()\<close>\<close>


lemma of_char_digit_char: "d < 10 \<Longrightarrow> (of_char (digit_char d) :: nat) = 48 + d"
  by (simp add: digit_char_def)

lemma is_digit_digit_char: "d < 10 \<Longrightarrow> is_digit (digit_char d)"
  by (simp add: is_digit_def of_char_digit_char)

lemma dec_nonempty: "dec n \<noteq> []"
  by (subst dec.simps) simp

lemma dec_digits: "c \<in> set (dec n) \<Longrightarrow> is_digit c"
proof (induction n rule: dec.induct)
  case (1 n)
  show ?case
  proof (cases "n < 10")
    case True
    with "1.prems" show ?thesis
      by (subst (asm) dec.simps) (simp add: is_digit_digit_char)
  next
    case False
    with "1.prems" have "c \<in> set (dec (n div 10)) \<or> c = digit_char (n mod 10)"
      by (subst (asm) dec.simps) auto
    with False "1.IH" show ?thesis
      by (auto simp: is_digit_digit_char)
  qed
qed

lemma digits_value_snoc: "digits_value (ds @ [c]) = 10 * digits_value ds + (of_char c - 48)"
  by (simp add: digits_value_def)

lemma digits_value_dec: "digits_value (dec n) = n"
proof (induction n rule: dec.induct)
  case (1 n)
  show ?case
  proof (cases "n < 10")
    case True
    then show ?thesis
      by (subst dec.simps) (simp add: digits_value_def of_char_digit_char)
  next
    case False
    then have "digits_value (dec n) = 10 * digits_value (dec (n div 10)) + (of_char (digit_char (n mod 10)) - 48)"
      by (subst dec.simps) (simp add: digits_value_snoc)
    with False "1.IH" show ?thesis
      by (simp add: of_char_digit_char)
  qed
qed

lemma digits_value_zero_Cons: "digits_value (CHR ''0'' # ds) = digits_value ds"
  by (simp add: digits_value_def)

lemma split_on_no_sep: "sep \<notin> set xs \<Longrightarrow> split_on sep xs = [xs]"
  by (induction xs) auto

lemma split_on_append: "sep \<notin> set xs \<Longrightarrow> split_on sep (xs @ sep # ys) = xs # split_on sep ys"
  by (induction xs) auto

lemma is_digit_cases:
  "is_digit c \<Longrightarrow> c \<noteq> CHR ''-'' \<and> c \<noteq> CHR '':'' \<and> c \<noteq> CHR ''_'' \<and> c \<noteq> CHR ''+''
     \<and> \<not> int_isspace c \<and> \<not> py_isspace c"
  by (auto simp: is_digit_def int_isspace_def py_isspace_def)


lemma strip_with_id:
  "s \<noteq> [] \<Longrightarrow> \<not> sp (hd s) \<Longrightarrow> \<not> sp (last s) \<Longrightarrow> strip_with sp s = s"
proof -
  assume a: "s \<noteq> []" "\<not> sp (hd s)" "\<not> sp (last s)"
  then have 1: "dropWhile sp s = s"
    by (cases s) auto
  from a have "dropWhile sp (rev s) = rev s"
    by (cases "rev s") (auto simp: hd_rev)
  with 1 show ?thesis
    by (simp add: strip_with_def)
qed

lemma py_int_digits_digits:
  assumes "ds \<noteq> []" "\<forall>c\<in>set ds. is_digit c"
  shows "py_int_digits ds = Inr (digits_value ds)"
proof -
  from assms(2) have "CHR ''_'' \<notin> set ds"
    using is_digit_cases by blast
  then have "split_on (CHR ''_'') ds = [ds]"
    by (rule split_on_no_sep)
  with assms show ?thesis
    by (simp add: py_int_digits_def list_all_iff)
qed

lemma py_int_str_digits:
  assumes "ds \<noteq> []" "\<forall>c\<in>set ds. is_digit c"
  shows "py_int_str ds = Inr (int (digits_value ds))"
proof -
  from assms have h: "is_digit (hd ds)" "is_digit (last ds)"
    by auto
  then have "strip_with int_isspace ds = ds"
    using assms(1) is_digit_cases by (intro strip_with_id) auto
  moreover obtain c r where cr: "ds = c # r"
    using assms(1) by (cases ds) auto
  moreover have "c \<noteq> CHR ''-''" "c \<noteq> CHR ''+''"
    using h(1) cr is_digit_cases by auto
  ultimately show ?thesis
    using py_int_digits_digits [OF assms] by (simp add: py_int_str_def)
qed

lemma py_int_str_dec: "py_int_str (dec n) = Inr (int n)"
  using py_int_str_digits [of "dec n"] dec_nonempty dec_digits
  by (simp add: digits_value_dec)

lemma py_int_str_neg_dec: "py_int_str (CHR ''-'' # dec n) = Inr (- int n)"
proof -
  have "is_digit (last (dec n))"
    using dec_nonempty dec_digits last_in_set by blast
  then have "\<not> int_isspace (last (CHR ''-'' # dec n))"
    using is_digit_cases dec_nonempty by simp
  then have "strip_with int_isspace (CHR ''-'' # dec n) = CHR ''-'' # dec n"
    by (intro strip_with_id) (simp_all add: int_isspace_def)
  moreover have "py_int_digits (dec n) = Inr n"
    using py_int_digits_digits [of "dec n"] dec_nonempty dec_digits
    by (simp add: digits_value_dec)
  ultimately show ?thesis
    by (simp add: py_int_str_def)
qed

lemma py_int_str_str_int: "py_int_str (str_int i) = Inr i"
  by (simp add: str_int_def py_int_str_dec py_int_str_neg_dec)

lemma py_int_str_fmt02: "0 \<le> i \<Longrightarrow> py_int_str (fmt02 i) = Inr i"
proof -
  assume i: "0 \<le> i"
  show ?thesis
  proof (cases "i < 10")
    case False
    then show ?thesis by (simp add: fmt02_def py_int_str_str_int)
  next
    case True
    let ?ds = "CHR ''0'' # dec (nat i)"
    have "\<forall>c\<in>set ?ds. is_digit c"
      using dec_digits by (auto simp: is_digit_def)
    then have "py_int_str ?ds = Inr (int (digits_value ?ds))"
      by (intro py_int_str_digits) simp_all
    with True i show ?thesis
      by (simp add: fmt02_def str_int_def digits_value_zero_Cons digits_value_dec)
  qed
qed

lemma str_int_chars: "c \<in> set (str_int i) \<Longrightarrow> is_digit c \<or> c = CHR ''-''"
  by (auto simp: str_int_def dest: dec_digits split: if_splits)

lemma str_int_nonneg_digits: "0 \<le> i \<Longrightarrow> c \<in> set (str_int i) \<Longrightarrow> is_digit c"
  by (auto simp: str_int_def dest: dec_digits)

lemma is_digit_zero: "is_digit (CHR ''0'')"
  by (simp add: is_digit_def)

lemma fmt02_digits: "0 \<le> i \<Longrightarrow> c \<in> set (fmt02 i) \<Longrightarrow> is_digit c"
  using str_int_nonneg_digits [of i c]
  by (auto simp: fmt02_def is_digit_zero split: if_splits)

lemma range_len_unit: "a \<le> b \<Longrightarrow> range_len a (b + 1) 1 = nat (b - a + 1)"
  by (simp add: range_len_def)

lemma map_upto: "map (\<lambda>i. a + int i) [0 ..< k] = [a .. a + int k - 1]"
proof (induction k)
  case 0
  then show ?case by simp
next
  case (Suc k)
  have "[a .. a + int (Suc k) - 1] = [a .. a + int k - 1] @ [a + int k]"
    using upto_rec2 [of a "a + int k"] by simp
  with Suc show ?case by simp
qed

lemma range_elems_unit: "a \<le> b \<Longrightarrow> range_elems a (b + 1) 1 = [a .. b]"
  using map_upto [of a "nat (b - a + 1)"] by (simp add: range_elems_def range_len_unit)

lemma range_elems_empty: "b \<le> a \<Longrightarrow> range_elems a b 1 = []"
  by (simp add: range_elems_def range_len_def)

lemma list_getitem_first: "xs \<noteq> [] \<Longrightarrow> list_getitem xs 0 = Inr (hd xs)"
  by (cases xs) (simp_all add: list_getitem_def)

lemma list_getitem_last: "xs \<noteq> [] \<Longrightarrow> list_getitem xs (- 1) = Inr (last xs)"
  by (simp add: list_getitem_def Let_def last_conv_nth nat_diff_distrib' of_nat_diff)

lemma list_getitem_empty: "list_getitem [] i = Inl IndexError"
  by (simp add: list_getitem_def)

lemma upto_hd_last: "a \<le> b \<Longrightarrow> hd [a .. b] = a \<and> last [a .. b] = b \<and> [a .. b] \<noteq> []"
proof -
  assume ab: "a \<le> b"
  then have 1: "[a .. b] = a # [a + 1 .. b]"
    by (rule upto_rec1)
  from ab have 2: "[a .. b] = [a .. b - 1] @ [b]"
    by (rule upto_rec2)
  have "hd [a .. b] = a" by (subst 1) simp
  moreover have "last [a .. b] = b" by (subst 2) simp
  moreover have "[a .. b] \<noteq> []" by (subst 1) simp
  ultimately show ?thesis by blast
qed

lemma array_text_unit: "a \<le> b \<Longrightarrow> array_text (PRange a (b + 1) 1) = Inr (str_int a @ ''-'' @ str_int b)"
  using upto_hd_last [of a b]
  by (simp add: array_text_def range_elems_unit list_getitem_first list_getitem_last)

lemma array_text_empty: "b \<le> a \<Longrightarrow> array_text (PRange a b 1) = Inl IndexError"
  by (simp add: array_text_def range_elems_empty list_getitem_empty)

lemma map_of_dict_set: "map_of (dict_set k v d) k = Some v"
  by (induction d) auto

lemma member_name_array: "\<not> member_name ''array''" "\<not> member_name ''time''"
  by (simp_all add: member_name_def)

lemma add_arguments_single:
  "k \<noteq> ''self'' \<Longrightarrow> \<not> member_name k \<Longrightarrow>
   add_arguments [(k, v)] self =
     (case add_argument (k, v) (config self) of
        Done c \<Rightarrow> Done (self\<lparr>config := c\<rparr>)
      | Raised e c \<Rightarrow> Raised e (self\<lparr>config := c\<rparr>)
      | OutsideModel \<Rightarrow> OutsideModel)"
  by (simp add: add_arguments_def split: outcome.splits)

lemma map_int_range_string:
  assumes "0 \<le> a" "0 \<le> b"
  shows "map_int (split_on (CHR ''-'') (str_int a @ ''-'' @ str_int b)) = Inr [a, b]"
proof -
  have na: "CHR ''-'' \<notin> set (str_int a)" and nb: "CHR ''-'' \<notin> set (str_int b)"
    using assms str_int_nonneg_digits is_digit_cases by blast+
  have "split_on (CHR ''-'') (str_int a @ CHR ''-'' # str_int b) = [str_int a, str_int b]"
    using split_on_append [OF na] split_on_no_sep [OF nb] by simp
  then show ?thesis
    by (simp add: py_int_str_str_int)
qed

lemma array_range_string:
  assumes "0 \<le> a" "0 \<le> b"
  shows "array_range (PStr (str_int a @ ''-'' @ str_int b)) = Inr (PRange a (b + 1) 1)"
  using map_int_range_string [OF assms]
  by (simp add: array_range_def list_getitem_def)

lemma add_argument_array_int:
  assumes "0 \<le> n"
  shows "add_argument (''array'', PInt n) c =
     Done (c\<lparr>args := dict_set ''array'' (PStr (''0-'' @ str_int n)) (args c),
             attrs := dict_set ''array'' (PRange 0 (n + 1) 1) (attrs c)\<rparr>)"
proof -
  have "array_text (PRange 0 (n + 1) 1) = Inr (str_int 0 @ ''-'' @ str_int n)"
    using assms by (rule array_text_unit)
  moreover have "str_int 0 = ''0''"
    by code_simp
  ultimately show ?thesis
    by (simp add: add_argument_def array_range_def setattr_config_def)
qed

lemma add_argument_array_string:
  assumes "0 \<le> a" "a \<le> b"
  shows "add_argument (''array'', PStr (str_int a @ ''-'' @ str_int b)) c =
     Done (c\<lparr>args := dict_set ''array'' (PStr (str_int a @ ''-'' @ str_int b)) (args c),
             attrs := dict_set ''array'' (PRange a (b + 1) 1) (attrs c)\<rparr>)"
proof -
  from assms have "0 \<le> b" by simp
  with assms have "array_range (PStr (str_int a @ ''-'' @ str_int b)) = Inr (PRange a (b + 1) 1)"
    by (intro array_range_string)
  moreover have "array_text (PRange a (b + 1) 1) = Inr (str_int a @ ''-'' @ str_int b)"
    using assms(2) by (rule array_text_unit)
  ultimately show ?thesis
    by (simp add: add_argument_def setattr_config_def)
qed

lemma config_array_dict_set:
  "config_array (c\<lparr>args := xs, attrs := dict_set ''array'' v (attrs c)\<rparr>) = Inr v"
  by (simp add: config_array_def map_of_dict_set)

subsection \<open>Array specifications that are rejected\<close>


lemma py_int_digits_error: "py_int_digits s = Inl e \<Longrightarrow> e = ValueError"
  by (auto simp: py_int_digits_def Let_def split: if_splits)

lemma py_int_str_error: "py_int_str s = Inl e \<Longrightarrow> e = ValueError"
  by (auto simp: py_int_str_def map_sum_def split: list.splits if_splits sum.splits
      dest: py_int_digits_error)

lemma map_int_error: "map_int ps = Inl e \<Longrightarrow> e = ValueError"
  by (induction ps) (auto split: sum.splits dest: py_int_str_error)

lemma map_int_bad_piece:
  "p \<in> set ps \<Longrightarrow> py_int_str p = Inl ValueError \<Longrightarrow> map_int ps = Inl ValueError"
proof (induction ps)
  case Nil
  then show ?case by simp
next
  case (Cons q ps)
  show ?case
  proof (cases "py_int_str q")
    case (Inl e)
    then show ?thesis
      using py_int_str_error [of q e] by simp
  next
    case (Inr i)
    with Cons.prems have "p \<in> set ps" by auto
    with Cons Inr show ?thesis by simp
  qed
qed

lemma add_argument_array_unparseable:
  assumes "p \<in> set (split_on (CHR ''-'') s)" "py_int_str p = Inl ValueError"
  shows "add_argument (''array'', PStr s) c = Raised ValueError c"
  using map_int_bad_piece [OF assms]
  by (simp add: add_argument_def array_range_def)

lemma add_argument_array_reversed:
  assumes "0 \<le> b" "b < a"
  shows "add_argument (''array'', PStr (str_int a @ ''-'' @ str_int b)) c = Raised IndexError c"
proof -
  from assms have "0 \<le> a" by simp
  then have "array_range (PStr (str_int a @ ''-'' @ str_int b)) = Inr (PRange a (b + 1) 1)"
    using assms(1) by (intro array_range_string)
  moreover have "array_text (PRange a (b + 1) 1) = Inl IndexError"
    using assms(2) by (intro array_text_empty) simp
  ultimately show ?thesis
    by (simp add: add_argument_def)
qed

lemma add_argument_array_negative:
  assumes "n < 0"
  shows "add_argument (''array'', PInt n) c = Raised IndexError c"
proof -
  have "array_text (PRange 0 (n + 1) 1) = Inl IndexError"
    using assms by (intro array_text_empty) simp
  then show ?thesis
    by (simp add: add_argument_def array_range_def)
qed

lemma add_arguments_loop_append:
  "add_arguments_loop (xs @ ys) c =
     (case add_arguments_loop xs c of
        Done c' \<Rightarrow> add_arguments_loop ys c'
      | Raised e c' \<Rightarrow> Raised e c'
      | OutsideModel \<Rightarrow> OutsideModel)"
  by (induction xs arbitrary: c) (auto split: outcome.splits)

lemma add_arguments_Done:
  assumes "add_arguments kwargs self = Done m"
  shows "''self'' \<notin> set (map fst kwargs)" and "\<not> list_ex member_name (map fst kwargs)"
    and "add_arguments_loop kwargs (config self) = Done (config m)"
    and "m = self\<lparr>config := config m\<rparr>"
  using assms by (auto simp: add_arguments_def split: if_splits outcome.splits)

lemma add_arguments_raise_at:
  assumes "add_arguments pre self = Done m"
      and "''self'' \<notin> set (map fst post)" and "\<not> list_ex member_name (map fst post)"
      and "k \<noteq> ''self''" and "\<not> member_name k"
      and "add_argument (k, v) (config m) = Raised e (config m)"
  shows "add_arguments (pre @ (k, v) # post) self = Raised e m"
proof -
  note d = add_arguments_Done [OF assms(1)]
  have g1: "''self'' \<notin> set (map fst (pre @ (k, v) # post))"
    using d(1) assms(2,4) by auto
  have g2: "\<not> list_ex member_name (map fst (pre @ (k, v) # post))"
    using d(2) assms(3,5) by (auto simp: list_ex_iff)
  have "add_arguments_loop (pre @ (k, v) # post) (config self) = Raised e (config m)"
    using d(3) assms(6) by (simp add: add_arguments_loop_append)
  then have "add_arguments (pre @ (k, v) # post) self = Raised e (self\<lparr>config := config m\<rparr>)"
    using g1 g2 by (simp add: add_arguments_def)
  with d(4) show ?thesis by simp
qed

lemma add_arguments_Nil: "add_arguments [] self = Done self"
  by (simp add: add_arguments_def)

subsection \<open>Durations\<close>


lemma split_last_append:
  assumes "sep \<notin> set ys"
  shows "split_last sep (xs @ sep # ys) = Some (xs, ys)"
proof -
  have r: "rev (xs @ sep # ys) = rev ys @ sep # rev xs"
    by simp
  have a: "\<forall>c\<in>set (rev ys). c \<noteq> sep"
    using assms by auto
  have "takeWhile (\<lambda>c. c \<noteq> sep) (rev ys @ sep # rev xs)
          = rev ys @ takeWhile (\<lambda>c. c \<noteq> sep) (sep # rev xs)"
    by (rule takeWhile_append2) (use a in blast)
  then have "takeWhile (\<lambda>c. c \<noteq> sep) (rev ys @ sep # rev xs) = rev ys"
    by simp
  moreover have "dropWhile (\<lambda>c. c \<noteq> sep) (rev ys @ sep # rev xs)
          = dropWhile (\<lambda>c. c \<noteq> sep) (sep # rev xs)"
    by (rule dropWhile_append2) (use a in blast)
  then have "dropWhile (\<lambda>c. c \<noteq> sep) (rev ys @ sep # rev xs) = sep # rev xs"
    by simp
  ultimately show ?thesis
    unfolding split_last_def r by simp
qed

lemma str_int_no_colon: "CHR '':'' \<notin> set (str_int i)"
  using str_int_chars [of "CHR '':''" i] by (auto simp: is_digit_def)

lemma fmt02_no_sep:
  assumes "0 \<le> i"
  shows "CHR '':'' \<notin> set (fmt02 i)" and "CHR ''-'' \<notin> set (fmt02 i)"
  using fmt02_digits [OF assms] is_digit_cases by blast+

lemma recompose_fields:
  assumes "0 \<le> H" "0 \<le> M" "0 \<le> S"
  shows "recompose (str_int D @ ''-'' @ fmt02 H @ '':'' @ fmt02 M @ '':'' @ fmt02 S)
           = Some (D * 86400 + H * 3600 + M * 60 + S)"
proof -
  let ?dh = "str_int D @ ''-'' @ fmt02 H"
  have c1: "CHR '':'' \<notin> set ?dh"
    using str_int_no_colon fmt02_no_sep(1) [OF assms(1)] by simp
  have "split_on (CHR '':'') (?dh @ CHR '':'' # (fmt02 M @ CHR '':'' # fmt02 S))
          = ?dh # split_on (CHR '':'') (fmt02 M @ CHR '':'' # fmt02 S)"
    using c1 by (rule split_on_append)
  moreover have "split_on (CHR '':'') (fmt02 M @ CHR '':'' # fmt02 S) = [fmt02 M, fmt02 S]"
    using split_on_append [OF fmt02_no_sep(1) [OF assms(2)], of "fmt02 S"]
          split_on_no_sep [OF fmt02_no_sep(1) [OF assms(3)]] by simp
  ultimately have sp: "split_on (CHR '':'')
      (str_int D @ ''-'' @ fmt02 H @ '':'' @ fmt02 M @ '':'' @ fmt02 S) = [?dh, fmt02 M, fmt02 S]"
    by simp
  have sl: "split_last (CHR ''-'') (str_int D @ CHR ''-'' # fmt02 H) = Some (str_int D, fmt02 H)"
    using fmt02_no_sep(2) [OF assms(1)] by (rule split_last_append)
  show ?thesis
    unfolding recompose_def sp
    by (simp add: sl py_int_str_str_int py_int_str_fmt02 assms)
qed

lemma length_dec_small: "n < 10 \<Longrightarrow> length (dec n) = 1"
  by (subst dec.simps) simp

lemma length_dec_two: "10 \<le> n \<Longrightarrow> n < 100 \<Longrightarrow> length (dec n) = 2"
  by (subst dec.simps) (simp add: length_dec_small)

lemma length_fmt02: "0 \<le> i \<Longrightarrow> i < 100 \<Longrightarrow> length (fmt02 i) = 2"
  by (cases "i < 10") (simp_all add: fmt02_def str_int_def length_dec_small length_dec_two)


lemma time_text_fields:
  "\<exists>D H M S. time_text d s us = str_int D @ ''-'' @ fmt02 H @ '':'' @ fmt02 M @ '':'' @ fmt02 S
     \<and> 0 \<le> H \<and> H < 24 \<and> 0 \<le> M \<and> M < 60 \<and> 0 \<le> S \<and> S < 60
     \<and> D * 86400 + H * 3600 + M * 60 + S = int_total_seconds d s us"
proof -
  define T where "T = int_total_seconds d s us"
  define D where "D = T div 86400"
  define R where "R = T mod 86400"
  define H where "H = R div 3600"
  define R' where "R' = R mod 3600"
  define M where "M = R' div 60"
  define S where "S = R' mod 60"
  have t: "time_text d s us = str_int D @ ''-'' @ fmt02 H @ '':'' @ fmt02 M @ '':'' @ fmt02 S"
    by (simp add: time_text_def Let_def T_def D_def R_def H_def R'_def M_def S_def)
  have R: "0 \<le> R" "R < 86400" by (simp_all add: R_def)
  have R': "0 \<le> R'" "R' < 3600" by (simp_all add: R'_def)
  have "R div 3600 \<le> 86399 div 3600"
    using R by (intro zdiv_mono1) simp_all
  then have H: "0 \<le> H" "H < 24"
    using R by (simp_all add: H_def pos_imp_zdiv_nonneg_iff)
  have "R' div 60 \<le> 3599 div 60"
    using R' by (intro zdiv_mono1) simp_all
  then have M: "0 \<le> M" "M < 60"
    using R' by (simp_all add: M_def pos_imp_zdiv_nonneg_iff)
  have S: "0 \<le> S" "S < 60" by (simp_all add: S_def)
  have "T = D * 86400 + R" by (simp add: D_def R_def)
  moreover have "R = H * 3600 + R'" by (simp add: H_def R'_def)
  moreover have "R' = M * 60 + S" by (simp add: M_def S_def)
  ultimately have "D * 86400 + H * 3600 + M * 60 + S = T" by simp
  with t H M S show ?thesis
    unfolding T_def by blast
qed


lemma bit_length_bound: "0 \<le> n \<Longrightarrow> n < 2 ^ k \<Longrightarrow> bit_length n \<le> int k"
proof (induction k arbitrary: n)
  case 0
  then have "n = 0" by simp
  then show ?case by (subst bit_length.simps) simp
next
  case (Suc k)
  show ?case
  proof (cases "n \<le> 0")
    case True
    then show ?thesis by (subst bit_length.simps) simp
  next
    case False
    from Suc.prems have "0 \<le> n div 2" "n div 2 < 2 ^ k"
      by simp_all
    then have "bit_length (n div 2) \<le> int k"
      by (rule Suc.IH)
    with False show ?thesis
      by (subst bit_length.simps) simp
  qed
qed

lemma round_half_even_exact: "0 < q \<Longrightarrow> round_half_even (n * q) q = n"
  by (simp add: round_half_even_def)

lemma bit_length_million: "bit_length 1000000 = 20"
  by code_simp

lemma floor_log2_ratio_whole:
  assumes "0 < N" "N < 2 ^ 53"
  shows "floor_log2_ratio (N * 10 ^ 6) (10 ^ 6) \<le> 52"
proof -
  define d where "d = bit_length (N * 10 ^ 6) - bit_length (10 ^ 6)"
  have "N * 10 ^ 6 < 2 ^ 53 * (2 ^ 20 :: int)"
    using assms by (intro mult_strict_mono) simp_all
  then have "N * 10 ^ 6 < (2 ^ 73 :: int)"
    by simp
  then have "bit_length (N * 10 ^ 6) \<le> 73"
    using bit_length_bound [of "N * 10 ^ 6" 73] assms(1) by simp
  then have d53: "d \<le> 53"
    by (simp add: d_def bit_length_million)
  have "d \<le> 52" if c: "0 \<le> d" "10 ^ 6 * 2 ^ nat d \<le> N * 10 ^ 6"
  proof -
    from c(2) have "(2 :: int) ^ nat d \<le> N" by simp
    with assms(2) have "(2 :: int) ^ nat d < 2 ^ 53" by simp
    then have "nat d < 53"
      by (rule power_less_imp_less_exp [rotated]) simp
    then show ?thesis by simp
  qed
  with d53 show ?thesis
    unfolding floor_log2_ratio_def d_def [symmetric] Let_def
    by (auto split: if_splits)
qed

lemma true_divide_whole:
  assumes "0 < N" "N < 2 ^ 53"
  shows "float_to_int (true_divide (N * 10 ^ 6) (10 ^ 6)) = N"
proof -
  define e where "e = floor_log2_ratio (N * 10 ^ 6) (10 ^ 6) - 52"
  have e: "e \<le> 0"
    using floor_log2_ratio_whole [OF assms] by (simp add: e_def)
  show ?thesis
  proof (cases "e = 0")
    case True
    have "round_half_even (N * 10 ^ 6) (10 ^ 6) = N"
      by (rule round_half_even_exact) simp
    with True show ?thesis
      unfolding true_divide_def e_def [symmetric] Let_def float_to_int_def by simp
  next
    case False
    with e have neg: "\<not> 0 \<le> e" by simp
    have "round_half_even (N * 2 ^ nat (- e) * 10 ^ 6) (10 ^ 6) = N * 2 ^ nat (- e)"
      by (rule round_half_even_exact) simp
    then have "round_half_even (N * 10 ^ 6 * 2 ^ nat (- e)) (10 ^ 6) = N * 2 ^ nat (- e)"
      by (simp add: mult.assoc mult.commute mult.left_commute)
    with neg show ?thesis
      unfolding true_divide_def e_def [symmetric] Let_def float_to_int_def by simp
  qed
qed

lemma int_total_seconds_whole:
  assumes "valid_timedelta d s 0"
  shows "int_total_seconds d s 0 * 10 ^ 6 = total_microseconds d s 0"
proof -
  define N where "N = d * 86400 + s"
  have a: "total_microseconds d s 0 = N * 10 ^ 6"
    by (simp add: total_microseconds_def N_def)
  from assms have b: "- (2 ^ 53) < N" "N < 2 ^ 53"
    by (simp_all add: valid_timedelta_def N_def)
  consider "N = 0" | "0 < N" | "N < 0" by linarith
  then show ?thesis
  proof cases
    case 1
    then show ?thesis by (simp add: int_total_seconds_def a)
  next
    case 2
    then have "float_to_int (true_divide (N * 10 ^ 6) (10 ^ 6)) = N"
      using b by (intro true_divide_whole)
    with 2 show ?thesis by (simp add: int_total_seconds_def a)
  next
    case 3
    then have "float_to_int (true_divide ((- N) * 10 ^ 6) (10 ^ 6)) = - N"
      using b by (intro true_divide_whole) simp_all
    with 3 show ?thesis by (simp add: int_total_seconds_def a)
  qed
qed


lemma round_half_even_bounds:
  "round_half_even p q = p div q \<or> round_half_even p q = p div q + 1"
  by (simp add: round_half_even_def Let_def)

lemma scaled_round_trunc:
  fixes a q :: int and k :: nat
  assumes "0 < q" "0 \<le> a" "q < 2 ^ k"
  shows "round_half_even (a * 2 ^ k) q div 2 ^ k = a div q"
proof -
  define N where "N = a div q"
  define K where "K = (2::int) ^ k"
  define X where "X = a * K"
  define f where "f = X div q"
  define m where "m = round_half_even X q"
  have K: "0 < K" "q < K"
    using assms(3) by (simp_all add: K_def)
  have "a = q * N + a mod q"
    by (simp add: N_def)
  moreover have "0 \<le> a mod q" "a mod q < q"
    using assms(1) by simp_all
  ultimately have a1: "q * N \<le> a" and a2: "a + 1 \<le> q * N + q"
    by linarith+
  have "X = q * f + X mod q"
    by (simp add: f_def)
  moreover have "0 \<le> X mod q" "X mod q < q"
    using assms(1) by simp_all
  ultimately have X1: "q * f \<le> X" and X2: "X < q * f + q"
    by linarith+
  have m: "m = f \<or> m = f + 1"
    unfolding m_def f_def by (rule round_half_even_bounds)
  have "q * N * K \<le> a * K"
    using a1 K(1) by (intro mult_right_mono) simp_all
  with X2 have "q * (N * K) < q * (f + 1)"
    by (simp add: X_def algebra_simps)
  then have "N * K < f + 1"
    using assms(1) by (simp only: mult_less_cancel_left_pos)
  then have lo: "K * N \<le> m"
    using m by (auto simp: mult.commute)
  have "(a + 1) * K \<le> (q * N + q) * K"
    using a2 K(1) by (intro mult_right_mono) simp_all
  then have "X + K \<le> q * ((N + 1) * K)"
    by (simp add: X_def algebra_simps)
  with X1 K(2) have "q * f + q < q * ((N + 1) * K)"
    by linarith
  then have "q * (f + 1) < q * ((N + 1) * K)"
    by (simp add: algebra_simps)
  then have "f + 1 < (N + 1) * K"
    using assms(1) by (simp only: mult_less_cancel_left_pos)
  then have hi: "m < K * N + K"
    using m by (auto simp: algebra_simps)
  have "m div K = N"
    using lo hi by (intro int_div_pos_eq [of m K N "m - K * N"]) simp_all
  then show ?thesis
    by (simp add: m_def X_def K_def N_def)
qed

lemma floor_log2_ratio_bound:
  assumes "0 < a" "a < 10 ^ 6 * 2 ^ 33"
  shows "floor_log2_ratio a (10 ^ 6) \<le> 32"
proof -
  define d where "d = bit_length a - bit_length (10 ^ 6)"
  have "a < (2 ^ 53 :: int)"
    using assms(2) by simp
  then have "bit_length a \<le> 53"
    using bit_length_bound [of a 53] assms(1) by simp
  then have d33: "d \<le> 33"
    by (simp add: d_def bit_length_million)
  have "d \<le> 32" if c: "0 \<le> d" "10 ^ 6 * 2 ^ nat d \<le> a"
  proof -
    from c(2) assms(2) have "(10 ^ 6 :: int) * 2 ^ nat d < 10 ^ 6 * 2 ^ 33"
      by linarith
    then have "(2 :: int) ^ nat d < 2 ^ 33"
      by (simp only: mult_less_cancel_left_pos zero_less_power zero_less_numeral)
    then have "nat d < 33"
      by (rule power_less_imp_less_exp [rotated]) simp
    then show ?thesis by simp
  qed
  with d33 show ?thesis
    unfolding floor_log2_ratio_def d_def [symmetric] Let_def
    by (auto split: if_splits)
qed

lemma true_divide_trunc:
  assumes "0 < a" "a < 10 ^ 6 * 2 ^ 33"
  shows "float_to_int (true_divide a (10 ^ 6)) = a div 10 ^ 6"
proof -
  define e where "e = floor_log2_ratio a (10 ^ 6) - 52"
  have e: "e \<le> - 20"
    using floor_log2_ratio_bound [OF assms] by (simp add: e_def)
  then have neg: "\<not> 0 \<le> e" by simp
  have "(2 :: int) ^ 20 \<le> 2 ^ nat (- e)"
    using e by (intro power_increasing) simp_all
  then have big: "(10 ^ 6 :: int) < 2 ^ nat (- e)"
    by simp
  have "round_half_even (a * 2 ^ nat (- e)) (10 ^ 6) div 2 ^ nat (- e) = a div 10 ^ 6"
    using assms(1) big by (intro scaled_round_trunc) simp_all
  with neg show ?thesis
    unfolding true_divide_def e_def [symmetric] Let_def float_to_int_def by simp
qed

lemma int_total_seconds_trunc:
  assumes "\<bar>total_microseconds d s us\<bar> < 10 ^ 6 * 2 ^ 33"
  shows "int_total_seconds d s us =
           (if 0 \<le> total_microseconds d s us then total_microseconds d s us div 10 ^ 6
            else - ((- total_microseconds d s us) div 10 ^ 6))"
proof -
  define a where "a = total_microseconds d s us"
  consider "a = 0" | "0 < a" | "a < 0" by linarith
  then show ?thesis
  proof cases
    case 1
    then show ?thesis by (simp add: int_total_seconds_def a_def [symmetric])
  next
    case 2
    then have "float_to_int (true_divide a (10 ^ 6)) = a div 10 ^ 6"
      using assms by (intro true_divide_trunc) (simp_all add: a_def)
    with 2 show ?thesis by (simp add: int_total_seconds_def a_def [symmetric])
  next
    case 3
    then have "float_to_int (true_divide (- a) (10 ^ 6)) = (- a) div 10 ^ 6"
      using assms by (intro true_divide_trunc) (simp_all add: a_def)
    with 3 show ?thesis by (simp add: int_total_seconds_def a_def [symmetric])
  qed
qed

lemma add_argument_time:
  "add_argument (''time'', PTimedelta d s us) c =
     Done (c\<lparr>args := dict_set ''time'' (PStr (time_text d s us)) (args c),
             attrs := dict_set ''time'' (PStr (time_text d s us)) (attrs c)\<rparr>)"
  by (simp add: add_argument_def setattr_config_def Let_def)

lemma add_argument_time_other:
  "(\<forall>d s us. v \<noteq> PTimedelta d s us) \<Longrightarrow>
   add_argument (''time'', v) c =
     Done (c\<lparr>args := dict_set ''time'' v (args c), attrs := dict_set ''time'' v (attrs c)\<rparr>)"
  by (cases v) (simp_all add: add_argument_def setattr_config_def Let_def)

subsection \<open>Rendering\<close>


lemma str_args_loop:
  "foldl (\<lambda>st kv. str_args_step kv st) (s, c) kvs
     = (s @ concat (map (\<lambda>kv. CHR 0x0A # directive_line kv) kvs), c)"
  by (induction kvs arbitrary: s)
     (simp_all add: str_args_step_def directive_line_def split: prod.splits)

lemma str_commands_loop:
  "foldl (\<lambda>st cmd. str_commands_step cmd st) (s, c) cmds
     = (s @ concat (map (\<lambda>cmd. CHR 0x0A # py_str cmd) cmds), c)"
  by (induction cmds arbitrary: s) (simp_all add: str_commands_step_def)

lemma join_lines_Cons: "join_lines (l # ls) = l @ concat (map (\<lambda>x. CHR 0x0A # x) ls)"
  by (induction ls arbitrary: l) simp_all

lemma SlurmConfig_str_eq:
  "SlurmConfig_str c = (join_lines (script_lines c), c)"
  by (simp add: SlurmConfig_str_def Let_def str_args_loop str_commands_loop
      script_lines_def join_lines_Cons map_concat comp_def)

lemma split_join_lines:
  "\<forall>x\<in>set (l # ls). CHR 0x0A \<notin> set x \<Longrightarrow> split_on (CHR 0x0A) (join_lines (l # ls)) = l # ls"
proof (induction ls arbitrary: l)
  case Nil
  then show ?case by (simp add: split_on_no_sep)
next
  case (Cons l' ls)
  then have "CHR 0x0A \<notin> set l" and "\<forall>x\<in>set (l' # ls). CHR 0x0A \<notin> set x"
    by simp_all
  then show ?case
    using Cons.IH [of l'] split_on_append [of "CHR 0x0A" l "join_lines (l' # ls)"]
    by simp
qed

subsection \<open>Submission\<close>


lemma length_prefix: "length ''Submitted batch job '' = 20"
  by simp

lemma match_job_id_alt:
  "match_job_id s =
     (if take 20 s = ''Submitted batch job ''
      then (if takeWhile is_digit (drop 20 s) = [] then None
            else Some (takeWhile is_digit (drop 20 s)))
      else None)"
  unfolding match_job_id_def Let_def length_prefix ..

lemma match_job_id_Some_iff:
  "(\<exists>g. match_job_id t = Some g)
     \<longleftrightarrow> (\<exists>d rest. t = ''Submitted batch job '' @ d # rest \<and> is_digit d)"
proof
  assume "\<exists>g. match_job_id t = Some g"
  then have p: "take 20 t = ''Submitted batch job ''"
    and n: "takeWhile is_digit (drop 20 t) \<noteq> []"
    by (auto simp: match_job_id_alt split: if_splits)
  from n obtain d rest where dr: "drop 20 t = d # rest" and d: "is_digit d"
    by (cases "drop 20 t") (auto split: if_splits)
  have "t = take 20 t @ drop 20 t" by simp
  with p dr have "t = ''Submitted batch job '' @ d # rest" by metis
  with d show "\<exists>d rest. t = ''Submitted batch job '' @ d # rest \<and> is_digit d" by blast
next
  assume "\<exists>d rest. t = ''Submitted batch job '' @ d # rest \<and> is_digit d"
  then obtain d rest where "t = ''Submitted batch job '' @ d # rest" "is_digit d" by blast
  then show "\<exists>g. match_job_id t = Some g"
    by (simp add: match_job_id_alt)
qed

lemma search_job_id_Some_iff:
  "(\<exists>g. search_job_id s = Some g)
     \<longleftrightarrow> (\<exists>pre d rest. s = pre @ ''Submitted batch job '' @ d # rest \<and> is_digit d)"
proof (induction s)
  case Nil
  then show ?case by (simp add: match_job_id_alt)
next
  case (Cons c cs)
  have "(\<exists>g. search_job_id (c # cs) = Some g)
          \<longleftrightarrow> (\<exists>g. match_job_id (c # cs) = Some g) \<or> (\<exists>g. search_job_id cs = Some g)"
    by (auto split: option.splits)
  also have "\<dots> \<longleftrightarrow> (\<exists>d rest. c # cs = ''Submitted batch job '' @ d # rest \<and> is_digit d)
                    \<or> (\<exists>pre d rest. cs = pre @ ''Submitted batch job '' @ d # rest \<and> is_digit d)"
    using match_job_id_Some_iff [of "c # cs"] Cons.IH by simp
  also have "\<dots> \<longleftrightarrow> (\<exists>pre d rest. c # cs = pre @ ''Submitted batch job '' @ d # rest \<and> is_digit d)"
  proof
    assume "(\<exists>d rest. c # cs = ''Submitted batch job '' @ d # rest \<and> is_digit d)
          \<or> (\<exists>pre d rest. cs = pre @ ''Submitted batch job '' @ d # rest \<and> is_digit d)"
    then show "\<exists>pre d rest. c # cs = pre @ ''Submitted batch job '' @ d # rest \<and> is_digit d"
    proof
      assume "\<exists>d rest. c # cs = ''Submitted batch job '' @ d # rest \<and> is_digit d"
      then obtain d rest where "c # cs = [] @ ''Submitted batch job '' @ d # rest" "is_digit d"
        by auto
      then show ?thesis by blast
    next
      assume "\<exists>pre d rest. cs = pre @ ''Submitted batch job '' @ d # rest \<and> is_digit d"
      then obtain pre d rest where "c # cs = (c # pre) @ ''Submitted batch job '' @ d # rest" "is_digit d"
        by auto
      then show ?thesis by blast
    qed
  next
    assume "\<exists>pre d rest. c # cs = pre @ ''Submitted batch job '' @ d # rest \<and> is_digit d"
    then obtain pre d rest where e: "c # cs = pre @ ''Submitted batch job '' @ d # rest" and d: "is_digit d"
      by blast
    show "(\<exists>d rest. c # cs = ''Submitted batch job '' @ d # rest \<and> is_digit d)
          \<or> (\<exists>pre d rest. cs = pre @ ''Submitted batch job '' @ d # rest \<and> is_digit d)"
    proof (cases pre)
      case Nil
      with e d show ?thesis by auto
    next
      case (Cons c' pre')
      with e have "cs = pre' @ ''Submitted batch job '' @ d # rest" by simp
      with d show ?thesis by blast
    qed
  qed
  finally show ?case .
qed

lemma search_job_id_None_iff:
  "search_job_id s = None
     \<longleftrightarrow> \<not> (\<exists>pre d rest. s = pre @ ''Submitted batch job '' @ d # rest \<and> is_digit d)"
  using search_job_id_Some_iff [of s] by (cases "search_job_id s") auto


lemma sbatch_after_submit:
  assumes "fs_mkdir w = None"
      and "save_configuration \<longrightarrow> serialize_config self w = None"
      and "write_submission_script self w = Inr path"
      and "run_error w (trace w) [''sbatch'', path] = None"
      and "returncode (respond w (trace w) [''sbatch'', path]) = 0"
  shows "sbatch shell_arg save_configuration output_path self w =
     (let process = respond w (trace w) [''sbatch'', path];
          w1 = w\<lparr>trace := trace w @ [[''sbatch'', path]]\<rparr>;
          self1 = self\<lparr>stdout := Some (proc_stdout process),
                       stderr := Some (proc_stderr process),
                       jobs := Some []\<rparr>
      in (case search_job_id (proc_stdout process) of
            None \<Rightarrow> (Inr [], self1, w1)
          | Some g \<Rightarrow>
              (let self2 = self1\<lparr>slurm_job_id := Some g\<rparr>
               in if is_array_job (config self2)
                  then (case config_array (config self2) of
                          Inl e \<Rightarrow> (Inl e, self2, w1)
                        | Inr arr \<Rightarrow>
                            (case py_iter arr of
                               Inl e \<Rightarrow> (Inl e, self2, w1)
                             | Inr items \<Rightarrow>
                                 (case make_jobs g self2 items w1 of
                                    (Inl e, w2) \<Rightarrow> (Inl e, self2, w2)
                                  | (Inr js, w2) \<Rightarrow> (Inr js, self2\<lparr>jobs := Some js\<rparr>, w2))))
                  else (case SlurmJob_init g self2 None w1 of
                          (Inl e, w2) \<Rightarrow> (Inl e, self2, w2)
                        | (Inr j, w2) \<Rightarrow> (Inr [j], self2\<lparr>jobs := Some [j]\<rparr>, w2)))))"
  using assms by (simp add: sbatch_def subprocess_run_def Let_def)

section \<open>Verified properties\<close>

subsection \<open>The accessors\<close>

text \<open>
  C10: for every manager state, \<^verbatim>\<open>get_commands()\<close> returns the directive mapping, the
  identical object that \<^verbatim>\<open>get_arguments()\<close> returns, and not the command list; the two
  accessors return equal results.
\<close>

theorem get_commands_is_get_arguments:
  "get_commands self = get_arguments self
   \<and> get_commands self = Member_args
   \<and> get_commands self \<noteq> Member_commands
   \<and> deref (config self) (get_commands self) = DictObj (args (config self))
   \<and> deref (config self) (get_commands self) = deref (config self) (get_arguments self)
   \<and> deref (config self) (get_commands self) \<noteq> ListObj (commands (config self))"
  by (simp add: get_commands_def get_arguments_def)

subsection \<open>Job handles\<close>



text \<open>
  C6 as stated (\<^verbatim>\<open>get_status()\<close> never raises) does not hold: lines 371-378 catch
  \<^verbatim>\<open>CalledProcessError\<close> only, so where \<^verbatim>\<open>squeue\<close> cannot be started the
  \<^verbatim>\<open>FileNotFoundError\<close> of \<^verbatim>\<open>subprocess.run\<close> leaves \<^verbatim>\<open>get_status()\<close>, and
  \<^verbatim>\<open>is_queued()\<close> with it.
\<close>

theorem get_status_raises_without_squeue:
  "fst (get_status job7 no_scheduler_world) = Inl FileNotFoundError
   \<and> fst (is_queued job7 no_scheduler_world) = Inl FileNotFoundError"
  by code_simp

text \<open>
  C6, amended: for every job handle and every world in which the status query runs
  (\<^verbatim>\<open>subprocess.run\<close> starts \<^verbatim>\<open>squeue\<close> and reads its output), \<^verbatim>\<open>get_status()\<close> raises
  nothing and returns the stripped standard output of the query when the query exits
  with status zero and printed something, and the sentinel \<^verbatim>\<open>COMPLETED or NOT FOUND\<close>
  both when it printed nothing and when it exits with a non-zero status. Any other
  exception of \<^verbatim>\<open>subprocess.run\<close> is raised by \<^verbatim>\<open>get_status()\<close> and by \<^verbatim>\<open>is_queued()\<close>.
  Whenever \<^verbatim>\<open>get_status()\<close> returns a status, \<^verbatim>\<open>is_queued()\<close> is true iff that status
  is exactly \<^verbatim>\<open>PENDING\<close> or \<^verbatim>\<open>RUNNING\<close>.
\<close>

theorem get_status_best_effort:
  "(run_error w (trace w) [''squeue'', ''-j'', job_id self, ''-h'', ''-o'', ''%T''] = None
      \<longrightarrow> fst (get_status self w) =
            Inr (let p = respond w (trace w) [''squeue'', ''-j'', job_id self, ''-h'', ''-o'', ''%T'']
                 in if returncode p = 0 \<and> proc_stdout p \<noteq> [] then py_strip (proc_stdout p)
                    else ''COMPLETED or NOT FOUND''))
   \<and> (run_error w (trace w) [''squeue'', ''-j'', job_id self, ''-h'', ''-o'', ''%T''] = Some e
        \<and> e \<noteq> CalledProcessError
      \<longrightarrow> fst (get_status self w) = Inl e \<and> fst (is_queued self w) = Inl e)
   \<and> (fst (get_status self w) = Inr s
      \<longrightarrow> fst (is_queued self w) = Inr (s = ''PENDING'' \<or> s = ''RUNNING''))"
  by (auto simp add: get_status_def is_queued_def subprocess_run_def Let_def NOT_FOUND_def
      split: option.splits)

theorem get_status_best_effort_witness:
  "fst (get_status job7 (quiet_world 0 ''RUNNING\<newline>'')) = Inr ''RUNNING''
   \<and> fst (is_queued job7 (quiet_world 0 ''RUNNING\<newline>'')) = Inr True
   \<and> fst (get_status job7 (quiet_world 0 [])) = Inr ''COMPLETED or NOT FOUND''
   \<and> fst (is_queued job7 (quiet_world 0 [])) = Inr False
   \<and> fst (get_status job7 (quiet_world 1 ''RUNNING\<newline>'')) = Inr ''COMPLETED or NOT FOUND''
   \<and> fst (get_status job7 no_scheduler_world) = Inl FileNotFoundError"
proof -
  have r: "run_error (quiet_world rc out) (trace (quiet_world rc out)) argv = None"
    for rc out argv
    by (simp add: quiet_world_def)
  have n: "run_error no_scheduler_world (trace no_scheduler_world)
             [''squeue'', ''-j'', job_id job7, ''-h'', ''-o'', ''%T''] = Some FileNotFoundError
           \<and> FileNotFoundError \<noteq> CalledProcessError"
    by (simp add: no_scheduler_world_def)
  have 1: "fst (get_status job7 (quiet_world 0 ''RUNNING\<newline>'')) = Inr ''RUNNING''"
    using get_status_best_effort [of "quiet_world 0 ''RUNNING\<newline>''" job7] r
    by (simp add: quiet_world_def job7_def py_strip_def strip_with_def py_isspace_def Let_def)
  have 2: "fst (get_status job7 (quiet_world 0 [])) = Inr ''COMPLETED or NOT FOUND''"
    using get_status_best_effort [of "quiet_world 0 []" job7] r
    by (simp add: quiet_world_def job7_def Let_def)
  have 3: "fst (get_status job7 (quiet_world 1 ''RUNNING\<newline>'')) = Inr ''COMPLETED or NOT FOUND''"
    using get_status_best_effort [of "quiet_world 1 ''RUNNING\<newline>''" job7] r
    by (simp add: quiet_world_def job7_def Let_def)
  have 4: "fst (is_queued job7 (quiet_world 0 ''RUNNING\<newline>'')) = Inr True"
    using get_status_best_effort [of "quiet_world 0 ''RUNNING\<newline>''" job7 _ "''RUNNING''"] 1
    by simp
  have 5: "fst (is_queued job7 (quiet_world 0 [])) = Inr False"
    using get_status_best_effort [of "quiet_world 0 []" job7 _ "''COMPLETED or NOT FOUND''"] 2
    by simp
  have 6: "fst (get_status job7 no_scheduler_world) = Inl FileNotFoundError"
    using get_status_best_effort [of no_scheduler_world job7 FileNotFoundError] n
    by simp
  from 1 2 3 4 5 6 show ?thesis by simp
qed

subsection \<open>Array normalisation\<close>

text \<open>
  C3: for every array specification passed to \<^verbatim>\<open>add_arguments\<close> under \<^verbatim>\<open>array\<close>: a
  non-negative integer \<open>n\<close> is stored as the text \<^verbatim>\<open>0-n\<close> and kept as the range whose
  iteration yields exactly the \<open>n + 1\<close> integers \<open>0, ..., n\<close>; a range string \<^verbatim>\<open>a-b\<close>
  with \<open>a \<le> b\<close> is stored as the text \<^verbatim>\<open>a-b\<close> and kept as the range whose iteration
  yields exactly the \<open>b - a + 1\<close> integers \<open>a, ..., b\<close> in ascending order. The bounds of
  a range string are array indices, written as decimal numbers without a sign.
\<close>

theorem add_arguments_array_inclusive:
  fixes n a b :: int
  assumes "0 \<le> n" and "0 \<le> a" and "a \<le> b"
  shows "(\<exists>m. add_arguments [(''array'', PInt n)] self = Done m
            \<and> map_of (args (config m)) ''array'' = Some (PStr (''0-'' @ str_int n))
            \<and> config_array (config m) = Inr (PRange 0 (n + 1) 1))
       \<and> py_iter (PRange 0 (n + 1) 1) = Inr (map PInt [0 .. n])
       \<and> int (length [0 .. n]) = n + 1
       \<and> (\<exists>m. add_arguments [(''array'', PStr (str_int a @ ''-'' @ str_int b))] self = Done m
            \<and> map_of (args (config m)) ''array'' = Some (PStr (str_int a @ ''-'' @ str_int b))
            \<and> config_array (config m) = Inr (PRange a (b + 1) 1))
       \<and> py_iter (PRange a (b + 1) 1) = Inr (map PInt [a .. b])
       \<and> int (length [a .. b]) = b - a + 1"
proof -
  have 1: "\<exists>m. add_arguments [(''array'', PInt n)] self = Done m
            \<and> map_of (args (config m)) ''array'' = Some (PStr (''0-'' @ str_int n))
            \<and> config_array (config m) = Inr (PRange 0 (n + 1) 1)"
    using assms(1)
    by (simp add: add_arguments_single member_name_array add_argument_array_int
        map_of_dict_set config_array_dict_set)
  have 2: "\<exists>m. add_arguments [(''array'', PStr (str_int a @ ''-'' @ str_int b))] self = Done m
            \<and> map_of (args (config m)) ''array'' = Some (PStr (str_int a @ ''-'' @ str_int b))
            \<and> config_array (config m) = Inr (PRange a (b + 1) 1)"
    using add_argument_array_string [OF assms(2,3), of "config self"]
    by (simp add: add_arguments_single member_name_array map_of_dict_set config_array_dict_set)
  have 3: "py_iter (PRange 0 (n + 1) 1) = Inr (map PInt [0 .. n])"
    using assms(1) by (simp add: range_elems_unit)
  have 4: "py_iter (PRange a (b + 1) 1) = Inr (map PInt [a .. b])"
    using assms(3) by (simp add: range_elems_unit)
  have 5: "int (length [0 .. n]) = n + 1" "int (length [a .. b]) = b - a + 1"
    using assms by simp_all
  from 1 2 3 4 5 show ?thesis by blast
qed

theorem add_arguments_array_inclusive_witness:
  "(\<exists>m. add_arguments [(''array'', PInt 3)] slurm0 = Done m
       \<and> map_of (args (config m)) ''array'' = Some (PStr ''0-3'')
       \<and> config_array (config m) = Inr (PRange 0 4 1))
   \<and> py_iter (PRange 0 4 1) = Inr [PInt 0, PInt 1, PInt 2, PInt 3]
   \<and> (\<exists>m. add_arguments [(''array'', PStr ''2-5'')] slurm0 = Done m
       \<and> map_of (args (config m)) ''array'' = Some (PStr ''2-5'')
       \<and> config_array (config m) = Inr (PRange 2 6 1))
   \<and> py_iter (PRange 2 6 1) = Inr [PInt 2, PInt 3, PInt 4, PInt 5]"
proof -
  have s: "str_int 3 = ''3''" "str_int 2 = ''2''" "str_int 5 = ''5''"
    by code_simp+
  have u: "[0 .. 3::int] = [0, 1, 2, 3]" "[2 .. 5::int] = [2, 3, 4, 5]"
    by code_simp+
  show ?thesis
    using add_arguments_array_inclusive [of 3 2 5 slurm0]
    by (simp add: s u)
qed

text \<open>
  C8 as stated (every malformed array specification makes \<^verbatim>\<open>add_arguments\<close> fail) does
  not hold: the text \<^verbatim>\<open>5\<close>, which has no hyphen, and the text \<^verbatim>\<open>1-2-3\<close>, which has
  three bounds, are accepted and stored as \<^verbatim>\<open>5-5\<close> and \<^verbatim>\<open>1-3\<close>.
\<close>

theorem add_arguments_array_unchecked:
  "add_arguments [(''array'', PStr ''5'')] slurm0 =
     Done (slurm0\<lparr>config := cfg0\<lparr>args := args cfg0 @ [(''array'', PStr ''5-5'')],
                                 attrs := attrs cfg0 @ [(''array'', PRange 5 6 1)]\<rparr>\<rparr>)
   \<and> add_arguments [(''array'', PStr ''1-2-3'')] slurm0 =
     Done (slurm0\<lparr>config := cfg0\<lparr>args := args cfg0 @ [(''array'', PStr ''1-3'')],
                                 attrs := attrs cfg0 @ [(''array'', PRange 1 4 1)]\<rparr>\<rparr>)"
  by code_simp

text \<open>
  C8, amended: in a call of \<^verbatim>\<open>add_arguments\<close> whose keywords before \<^verbatim>\<open>array\<close> are
  accepted, an array specification with a piece between hyphens that \<^verbatim>\<open>int()\<close> rejects
  makes the call raise \<^verbatim>\<open>ValueError\<close> at the \<^verbatim>\<open>array\<close> keyword; a range string with
  reversed bounds and a negative integer make it raise \<^verbatim>\<open>IndexError\<close> there. The
  \<^verbatim>\<open>array\<close> directive is not stored and the keywords after it are not read: the manager
  is left as the keywords before \<^verbatim>\<open>array\<close> made it, so as it was when \<^verbatim>\<open>array\<close> is the
  only or the first keyword. The module has no error type of its own.
\<close>

theorem add_arguments_array_malformed:
  fixes n a b :: int
  assumes "add_arguments pre self = Done m"
      and "''self'' \<notin> set (map fst post)"
      and "\<not> list_ex member_name (map fst post)"
  shows "(p \<in> set (split_on (CHR ''-'') s) \<and> py_int_str p = Inl ValueError
            \<longrightarrow> add_arguments (pre @ (''array'', PStr s) # post) self = Raised ValueError m)
       \<and> (0 \<le> b \<and> b < a
            \<longrightarrow> add_arguments (pre @ (''array'', PStr (str_int a @ ''-'' @ str_int b)) # post) self
                  = Raised IndexError m)
       \<and> (n < 0 \<longrightarrow> add_arguments (pre @ (''array'', PInt n) # post) self = Raised IndexError m)
       \<and> add_arguments [] self = Done self"
proof (intro conjI impI)
  have k: "''array'' \<noteq> ''self''" "\<not> member_name ''array''"
    by (simp_all add: member_name_array)
  {
    assume "p \<in> set (split_on (CHR ''-'') s) \<and> py_int_str p = Inl ValueError"
    then have "add_argument (''array'', PStr s) (config m) = Raised ValueError (config m)"
      by (intro add_argument_array_unparseable [of p]) simp_all
    then show "add_arguments (pre @ (''array'', PStr s) # post) self = Raised ValueError m"
      by (rule add_arguments_raise_at [OF assms k])
  }
  {
    assume "0 \<le> b \<and> b < a"
    then have "add_argument (''array'', PStr (str_int a @ ''-'' @ str_int b)) (config m)
        = Raised IndexError (config m)"
      by (intro add_argument_array_reversed) simp_all
    then show "add_arguments (pre @ (''array'', PStr (str_int a @ ''-'' @ str_int b)) # post) self
        = Raised IndexError m"
      by (rule add_arguments_raise_at [OF assms k])
  }
  {
    assume "n < 0"
    then have "add_argument (''array'', PInt n) (config m) = Raised IndexError (config m)"
      by (rule add_argument_array_negative)
    then show "add_arguments (pre @ (''array'', PInt n) # post) self = Raised IndexError m"
      by (rule add_arguments_raise_at [OF assms k])
  }
  show "add_arguments [] self = Done self"
    by (rule add_arguments_Nil)
qed

theorem add_arguments_array_malformed_witness:
  "add_arguments [(''array'', PStr ''0-10:2'')] slurm0 = Raised ValueError slurm0
   \<and> add_arguments [(''array'', PStr ''abc'')] slurm0 = Raised ValueError slurm0
   \<and> add_arguments [(''array'', PStr ''5-2'')] slurm0 = Raised IndexError slurm0
   \<and> add_arguments [(''array'', PInt (- 1))] slurm0 = Raised IndexError slurm0
   \<and> add_arguments [(''partition'', PStr ''cpu'')] slurm0 = Done slurm0_cpu
   \<and> slurm0_cpu \<noteq> slurm0
   \<and> add_arguments [(''partition'', PStr ''cpu''), (''array'', PStr ''abc''), (''mem'', PStr ''8G'')]
         slurm0 = Raised ValueError slurm0_cpu"
proof -
  have p1: "''10:2'' \<in> set (split_on (CHR ''-'') ''0-10:2'') \<and> py_int_str ''10:2'' = Inl ValueError"
    by code_simp
  have p2: "''abc'' \<in> set (split_on (CHR ''-'') ''abc'') \<and> py_int_str ''abc'' = Inl ValueError"
    by code_simp
  have s: "str_int 5 @ ''-'' @ str_int 2 = ''5-2''"
    by code_simp
  have e: "add_arguments [] slurm0 = Done slurm0"
    by (simp add: add_arguments_def)
  have c: "add_arguments [(''partition'', PStr ''cpu'')] slurm0 = Done slurm0_cpu"
    by code_simp
  have ne: "slurm0_cpu \<noteq> slurm0"
    by (simp add: slurm0_cpu_def slurm0_def cfg0_def)
  have g0: "''self'' \<notin> set (map fst ([] :: (string \<times> pyval) list))"
           "\<not> list_ex member_name (map fst ([] :: (string \<times> pyval) list))"
    by simp_all
  have g1: "''self'' \<notin> set (map fst [(''mem'', PStr ''8G'')])"
           "\<not> list_ex member_name (map fst [(''mem'', PStr ''8G'')])"
    by (simp_all add: member_name_def)
  show ?thesis
    using add_arguments_array_malformed [OF e g0, of "''10:2''" "''0-10:2''" 2 5 "- 1"]
          add_arguments_array_malformed [OF e g0, of "''abc''" "''abc''" 2 5 "- 1"]
          add_arguments_array_malformed [OF c g1, of "''abc''" "''abc''" 2 5 "- 1"]
          p1 p2 s c ne
    by simp
qed

subsection \<open>Duration normalisation\<close>

text \<open>
  C4 as stated (recomposing the stored fields gives the total seconds of the duration)
  does not hold for a duration with a sub-second part: \<^verbatim>\<open>timedelta(seconds=1,
  microseconds=500000)\<close> lasts 1.5 seconds, that is 1500000 microseconds, and is stored as
  \<^verbatim>\<open>0-00:00:01\<close>, which recomposes to 1 second.
\<close>

theorem add_arguments_time_drops_fraction:
  "add_arguments [(''time'', PTimedelta 0 1 500000)] slurm0 =
     Done (slurm0\<lparr>config := cfg0\<lparr>args := args cfg0 @ [(''time'', PStr ''0-00:00:01'')],
                                 attrs := attrs cfg0 @ [(''time'', PStr ''0-00:00:01'')]\<rparr>\<rparr>)
   \<and> recompose ''0-00:00:01'' = Some 1
   \<and> valid_timedelta 0 1 500000
   \<and> total_microseconds 0 1 500000 = 1500000
   \<and> (1 :: int) * 10 ^ 6 \<noteq> total_microseconds 0 1 500000"
  by code_simp

text \<open>
  C4, amended: for every timedelta \<open>d\<close> passed to \<^verbatim>\<open>add_arguments\<close> under \<^verbatim>\<open>time\<close>,
  the stored value is the text \<^verbatim>\<open>D-HH:MM:SS\<close> with the days unpadded and the hours,
  minutes and seconds padded to two digits, decomposed (with 86400, 3600 and 60 seconds)
  from the whole number \<^verbatim>\<open>int(d.total_seconds())\<close>; recomposing the fields yields that
  whole number. It is the total seconds of \<open>d\<close> whenever \<open>d\<close> has no sub-second part,
  and the total seconds of \<open>d\<close> with the sub-second part dropped (rounded towards zero)
  whenever \<open>d\<close> is shorter than \<open>2\<^sup>3\<^sup>3\<close> seconds, about 272 years. Any value that is no
  timedelta is stored as given.
\<close>

theorem add_arguments_time_format:
  "(\<exists>t D H M S.
       (\<exists>m. add_arguments [(''time'', PTimedelta d s us)] self = Done m
            \<and> map_of (args (config m)) ''time'' = Some (PStr t))
     \<and> t = str_int D @ ''-'' @ fmt02 H @ '':'' @ fmt02 M @ '':'' @ fmt02 S
     \<and> 0 \<le> H \<and> H < 24 \<and> 0 \<le> M \<and> M < 60 \<and> 0 \<le> S \<and> S < 60
     \<and> length (fmt02 H) = 2 \<and> length (fmt02 M) = 2 \<and> length (fmt02 S) = 2
     \<and> D * 86400 + H * 3600 + M * 60 + S = int_total_seconds d s us
     \<and> recompose t = Some (int_total_seconds d s us))
   \<and> (valid_timedelta d s us \<and> us = 0
        \<longrightarrow> int_total_seconds d s us * 10 ^ 6 = total_microseconds d s us)
   \<and> (\<bar>total_microseconds d s us\<bar> < 10 ^ 6 * 2 ^ 33
        \<longrightarrow> int_total_seconds d s us =
              (if 0 \<le> total_microseconds d s us then total_microseconds d s us div 10 ^ 6
               else - ((- total_microseconds d s us) div 10 ^ 6)))
   \<and> ((\<forall>d' s' us'. v \<noteq> PTimedelta d' s' us')
        \<longrightarrow> (\<exists>m. add_arguments [(''time'', v)] self = Done m
                  \<and> map_of (args (config m)) ''time'' = Some v))"
proof (intro conjI impI)
  obtain D H M S where f:
    "time_text d s us = str_int D @ ''-'' @ fmt02 H @ '':'' @ fmt02 M @ '':'' @ fmt02 S"
    "0 \<le> H" "H < 24" "0 \<le> M" "M < 60" "0 \<le> S" "S < 60"
    "D * 86400 + H * 3600 + M * 60 + S = int_total_seconds d s us"
    using time_text_fields [of d s us] by blast
  have st: "\<exists>m. add_arguments [(''time'', PTimedelta d s us)] self = Done m
            \<and> map_of (args (config m)) ''time'' = Some (PStr (time_text d s us))"
    by (simp add: add_arguments_single member_name_array add_argument_time map_of_dict_set)
  have len: "length (fmt02 H) = 2" "length (fmt02 M) = 2" "length (fmt02 S) = 2"
    using f by (simp_all add: length_fmt02)
  have "recompose (str_int D @ ''-'' @ fmt02 H @ '':'' @ fmt02 M @ '':'' @ fmt02 S)
          = Some (D * 86400 + H * 3600 + M * 60 + S)"
    using f(2,4,6) by (rule recompose_fields)
  then have rc: "recompose (time_text d s us) = Some (int_total_seconds d s us)"
    using f(1,8) by simp
  show "\<exists>t D H M S.
       (\<exists>m. add_arguments [(''time'', PTimedelta d s us)] self = Done m
            \<and> map_of (args (config m)) ''time'' = Some (PStr t))
     \<and> t = str_int D @ ''-'' @ fmt02 H @ '':'' @ fmt02 M @ '':'' @ fmt02 S
     \<and> 0 \<le> H \<and> H < 24 \<and> 0 \<le> M \<and> M < 60 \<and> 0 \<le> S \<and> S < 60
     \<and> length (fmt02 H) = 2 \<and> length (fmt02 M) = 2 \<and> length (fmt02 S) = 2
     \<and> D * 86400 + H * 3600 + M * 60 + S = int_total_seconds d s us
     \<and> recompose t = Some (int_total_seconds d s us)"
    using st f len rc by blast
next
  assume "valid_timedelta d s us \<and> us = 0"
  then have "valid_timedelta d s 0" and "us = 0"
    by auto
  then show "int_total_seconds d s us * 10 ^ 6 = total_microseconds d s us"
    using int_total_seconds_whole [of d s] by blast
next
  assume "\<bar>total_microseconds d s us\<bar> < 10 ^ 6 * 2 ^ 33"
  then show "int_total_seconds d s us =
              (if 0 \<le> total_microseconds d s us then total_microseconds d s us div 10 ^ 6
               else - ((- total_microseconds d s us) div 10 ^ 6))"
    by (rule int_total_seconds_trunc)
next
  assume "\<forall>d' s' us'. v \<noteq> PTimedelta d' s' us'"
  then have "add_argument (''time'', v) (config self) =
     Done ((config self)\<lparr>args := dict_set ''time'' v (args (config self)),
                         attrs := dict_set ''time'' v (attrs (config self))\<rparr>)"
    by (rule add_argument_time_other)
  then show "\<exists>m. add_arguments [(''time'', v)] self = Done m
                  \<and> map_of (args (config m)) ''time'' = Some v"
    by (simp add: add_arguments_single member_name_array map_of_dict_set)
qed

theorem add_arguments_time_format_witness:
  "add_arguments [(''time'', PTimedelta 1 3661 0)] slurm0 =
     Done (slurm0\<lparr>config := cfg0\<lparr>args := args cfg0 @ [(''time'', PStr ''1-01:01:01'')],
                                 attrs := attrs cfg0 @ [(''time'', PStr ''1-01:01:01'')]\<rparr>\<rparr>)
   \<and> recompose ''1-01:01:01'' = Some 90061
   \<and> valid_timedelta 1 3661 0
   \<and> int_total_seconds 1 3661 0 * 10 ^ 6 = total_microseconds 1 3661 0
   \<and> total_microseconds 1 3661 0 = 90061 * 10 ^ 6
   \<and> \<bar>total_microseconds 1 3661 0\<bar> < 10 ^ 6 * 2 ^ 33
   \<and> int_total_seconds 1 3661 0 = 90061
   \<and> (\<exists>m. add_arguments [(''time'', PStr ''1:00:00'')] slurm0 = Done m
          \<and> map_of (args (config m)) ''time'' = Some (PStr ''1:00:00''))"
proof -
  have a: "add_arguments [(''time'', PTimedelta 1 3661 0)] slurm0 =
     Done (slurm0\<lparr>config := cfg0\<lparr>args := args cfg0 @ [(''time'', PStr ''1-01:01:01'')],
                                 attrs := attrs cfg0 @ [(''time'', PStr ''1-01:01:01'')]\<rparr>\<rparr>)"
    by code_simp
  have b: "recompose ''1-01:01:01'' = Some 90061"
    by code_simp
  have c: "valid_timedelta 1 3661 0" "total_microseconds 1 3661 0 = 90061 * 10 ^ 6"
    by (simp_all add: valid_timedelta_def total_microseconds_def)
  have d: "\<forall>d' s' us'. PStr ''1:00:00'' \<noteq> PTimedelta d' s' us'"
    by simp
  show ?thesis
    using add_arguments_time_format [of 1 3661 0 slurm0 "PStr ''1:00:00''"] a b c d
    by simp
qed

subsection \<open>Rendering\<close>

text \<open>
  C5: for every configuration, \<^verbatim>\<open>render()\<close> returns the text whose lines are
  \<^verbatim>\<open>#!<shell>\<close>, then one line \<^verbatim>\<open>#SBATCH --<name>=<value>\<close> per directive in insertion
  order with the underscores of the name replaced by hyphens, then one line per command
  as it is, in insertion order (splitting the text at newlines gives back exactly these
  lines when none of them holds a newline itself); two configurations with the same
  shell, directives and commands render the same text.
\<close>

theorem render_script_lines:
  "render c = join_lines (script_lines c)
   \<and> ((\<forall>l\<in>set (script_lines c). CHR 0x0A \<notin> set l)
        \<longrightarrow> split_on (CHR 0x0A) (render c) = script_lines c)
   \<and> (shell c = shell c' \<and> args c = args c' \<and> commands c = commands c'
        \<longrightarrow> render c = render c')"
proof (intro conjI impI)
  show r: "render c = join_lines (script_lines c)"
    by (simp add: render_def SlurmConfig_str_eq)
  show "split_on (CHR 0x0A) (render c) = script_lines c"
    if "\<forall>l\<in>set (script_lines c). CHR 0x0A \<notin> set l"
  proof -
    obtain l ls where ls: "script_lines c = l # ls"
      by (simp add: script_lines_def)
    with that show ?thesis
      using split_join_lines [of l ls] by (simp add: r)
  qed
  show "render c = render c'"
    if "shell c = shell c' \<and> args c = args c' \<and> commands c = commands c'"
    using that by (simp add: render_def SlurmConfig_str_eq script_lines_def)
qed

theorem render_script_lines_witness:
  "render cfg0 =
     ''#!/bin/bash\<newline>#SBATCH --job-name=test\<newline>#SBATCH --partition=gpu\<newline>#SBATCH --mem=4G\<newline>sleep 10\<newline>echo HI''
   \<and> split_on (CHR 0x0A) (render cfg0) =
       [''#!/bin/bash'', ''#SBATCH --job-name=test'', ''#SBATCH --partition=gpu'',
        ''#SBATCH --mem=4G'', ''sleep 10'', ''echo HI'']
   \<and> cfg0_other \<noteq> cfg0
   \<and> render cfg0 = render cfg0_other"
proof -
  have a: "script_lines cfg0 =
       [''#!/bin/bash'', ''#SBATCH --job-name=test'', ''#SBATCH --partition=gpu'',
        ''#SBATCH --mem=4G'', ''sleep 10'', ''echo HI'']"
    by code_simp
  have b: "\<forall>l\<in>set (script_lines cfg0). CHR 0x0A \<notin> set l"
    unfolding a by simp
  have c: "shell cfg0 = shell cfg0_other \<and> args cfg0 = args cfg0_other
           \<and> commands cfg0 = commands cfg0_other" "cfg0_other \<noteq> cfg0"
    by (simp_all add: cfg0_other_def cfg0_def)
  show ?thesis
    using render_script_lines [of cfg0 cfg0_other] a b c by auto
qed

text \<open>
  C9: for every configuration, rendering turns underscores into hyphens only in the text
  it returns: after \<^verbatim>\<open>render()\<close> the configuration is the one before, with the same
  directive names and values and the same commands.
\<close>

theorem render_leaves_configuration:
  "snd (SlurmConfig_str c) = c
   \<and> args (snd (SlurmConfig_str c)) = args c
   \<and> commands (snd (SlurmConfig_str c)) = commands c
   \<and> fst (SlurmConfig_str c) = join_lines (script_lines c)"
  by (simp add: SlurmConfig_str_eq)

theorem render_leaves_configuration_witness:
  "fst (SlurmConfig_str cfg0) =
     ''#!/bin/bash\<newline>#SBATCH --job-name=test\<newline>#SBATCH --partition=gpu\<newline>#SBATCH --mem=4G\<newline>sleep 10\<newline>echo HI''
   \<and> args (snd (SlurmConfig_str cfg0)) =
       [(''job_name'', PStr ''test''), (''partition'', PStr ''gpu''), (''mem'', PStr ''4G'')]
   \<and> commands (snd (SlurmConfig_str cfg0)) = [PStr ''sleep 10'', PStr ''echo HI'']"
proof -
  have a: "fst (SlurmConfig_str cfg0) =
     ''#!/bin/bash\<newline>#SBATCH --job-name=test\<newline>#SBATCH --partition=gpu\<newline>#SBATCH --mem=4G\<newline>sleep 10\<newline>echo HI''"
    by code_simp
  show ?thesis
    using render_leaves_configuration [of cfg0] a by (simp add: cfg0_def)
qed

subsection \<open>Submission\<close>

text \<open>
  C1, where the code departs from the claim: for every manager whose configuration has
  no \<^verbatim>\<open>array\<close> directive, when the files are written, the submit command runs and exits
  with status zero and its output holds \<^verbatim>\<open>Submitted batch job <id>\<close>, \<^verbatim>\<open>sbatch\<close> does not
  return a job handle. Line 299 calls \<^verbatim>\<open>SlurmJob(job_id, self)\<close> without the parameter
  \<^verbatim>\<open>array_num\<close>, which line 312 requires, so the call raises \<^verbatim>\<open>TypeError\<close>; the job
  has been submitted by then, and the manager's list of jobs stays empty.
\<close>

theorem sbatch_single_job_type_error:
  assumes "\<not> is_array_job (config self)"
      and "fs_mkdir w = None"
      and "save_configuration \<longrightarrow> serialize_config self w = None"
      and "write_submission_script self w = Inr path"
      and "run_error w (trace w) [''sbatch'', path] = None"
      and "returncode (respond w (trace w) [''sbatch'', path]) = 0"
      and "proc_stdout (respond w (trace w) [''sbatch'', path])
             = pre @ ''Submitted batch job '' @ d # rest"
      and "is_digit d"
  shows "fst (sbatch shell_arg save_configuration output_path self w) = Inl TypeError
       \<and> jobs (fst (snd (sbatch shell_arg save_configuration output_path self w))) = Some []
       \<and> trace (snd (snd (sbatch shell_arg save_configuration output_path self w)))
           = trace w @ [[''sbatch'', path]]"
proof -
  have "\<exists>g. search_job_id (proc_stdout (respond w (trace w) [''sbatch'', path])) = Some g"
    using assms(7,8) search_job_id_Some_iff by blast
  then obtain g where
    g: "search_job_id (proc_stdout (respond w (trace w) [''sbatch'', path])) = Some g"
    by blast
  show ?thesis
    using sbatch_after_submit [OF assms(2-6), of shell_arg output_path] g assms(1)
    by (simp add: Let_def SlurmJob_init_def)
qed

theorem sbatch_single_job_type_error_witness:
  "\<not> is_array_job (config slurm0)
   \<and> fst (sbatch None True None slurm0 (quiet_world 0 ''Submitted batch job 4821\<newline>''))
       = Inl TypeError
   \<and> jobs (fst (snd (sbatch None True None slurm0
        (quiet_world 0 ''Submitted batch job 4821\<newline>'')))) = Some []
   \<and> trace (snd (snd (sbatch None True None slurm0
        (quiet_world 0 ''Submitted batch job 4821\<newline>'')))) = [[''sbatch'', ''job.sh'']]"
proof -
  let ?w = "quiet_world 0 ''Submitted batch job 4821\<newline>''"
  have 0: "\<not> is_array_job (config slurm0)"
    by code_simp
  have 1: "fs_mkdir ?w = None"
    by (simp add: quiet_world_def)
  have 2: "True \<longrightarrow> serialize_config slurm0 ?w = None"
    by code_simp
  have 3: "write_submission_script slurm0 ?w = Inr ''job.sh''"
    by code_simp
  have r: "run_error ?w (trace ?w) [''sbatch'', ''job.sh''] = None"
    by (simp add: quiet_world_def)
  have 4: "returncode (respond ?w (trace ?w) [''sbatch'', ''job.sh'']) = 0"
    by (simp add: quiet_world_def)
  have 5: "proc_stdout (respond ?w (trace ?w) [''sbatch'', ''job.sh''])
             = [] @ ''Submitted batch job '' @ CHR ''4'' # ''821\<newline>''"
    by (simp add: quiet_world_def)
  have 6: "is_digit (CHR ''4'')"
    by (simp add: is_digit_def)
  show ?thesis
    using sbatch_single_job_type_error [OF 0 1 2 3 r 4 5 6, of None None] 0
    by (simp add: quiet_world_def)
qed

text \<open>
  C2 as stated (a zero exit status without a job identifier makes the submission fail
  with an error) does not hold: for the output \<^verbatim>\<open>sbatch: accepted\<close>, which holds no job
  identifier, \<^verbatim>\<open>sbatch\<close> returns the empty list.
\<close>

theorem sbatch_no_job_id_returns_empty:
  "fst (sbatch None True None slurm0 (quiet_world 0 ''sbatch: accepted'')) = Inr []
   \<and> run_error (quiet_world 0 ''sbatch: accepted'') [] [''sbatch'', ''job.sh''] = None
   \<and> returncode (respond (quiet_world 0 ''sbatch: accepted'') [] [''sbatch'', ''job.sh'']) = 0
   \<and> search_job_id ''sbatch: accepted'' = None"
  by code_simp

text \<open>
  C2, amended: if the submit command runs and exits with status zero and its standard output
  holds no decimal digit right after the text \<^verbatim>\<open>Submitted batch job \<close>, then \<^verbatim>\<open>sbatch\<close>
  raises nothing and returns the empty list: no job handle is produced, no further
  command is run, and the manager keeps the captured output and an empty list of jobs.
\<close>

theorem sbatch_without_job_id:
  assumes "fs_mkdir w = None"
      and "save_configuration \<longrightarrow> serialize_config self w = None"
      and "write_submission_script self w = Inr path"
      and "run_error w (trace w) [''sbatch'', path] = None"
      and "returncode (respond w (trace w) [''sbatch'', path]) = 0"
      and "\<not> (\<exists>pre d rest. proc_stdout (respond w (trace w) [''sbatch'', path])
                  = pre @ ''Submitted batch job '' @ d # rest \<and> is_digit d)"
  shows "sbatch shell_arg save_configuration output_path self w =
     (Inr [],
      self\<lparr>stdout := Some (proc_stdout (respond w (trace w) [''sbatch'', path])),
           stderr := Some (proc_stderr (respond w (trace w) [''sbatch'', path])),
           jobs := Some []\<rparr>,
      w\<lparr>trace := trace w @ [[''sbatch'', path]]\<rparr>)"
proof -
  have "search_job_id (proc_stdout (respond w (trace w) [''sbatch'', path])) = None"
    using assms(6) by (simp only: search_job_id_None_iff not_False_eq_True)
  then show ?thesis
    using sbatch_after_submit [OF assms(1-5), of shell_arg output_path]
    by (simp add: Let_def)
qed

theorem sbatch_without_job_id_witness:
  "fst (sbatch None True None slurm0 (quiet_world 0 ''sbatch: accepted'')) = Inr []
   \<and> jobs (fst (snd (sbatch None True None slurm0 (quiet_world 0 ''sbatch: accepted'')))) = Some []
   \<and> stdout (fst (snd (sbatch None True None slurm0 (quiet_world 0 ''sbatch: accepted''))))
       = Some ''sbatch: accepted''
   \<and> trace (snd (snd (sbatch None True None slurm0 (quiet_world 0 ''sbatch: accepted''))))
       = [[''sbatch'', ''job.sh'']]"
proof -
  let ?w = "quiet_world 0 ''sbatch: accepted''"
  have 1: "fs_mkdir ?w = None"
    by (simp add: quiet_world_def)
  have 2: "True \<longrightarrow> serialize_config slurm0 ?w = None"
    by code_simp
  have 3: "write_submission_script slurm0 ?w = Inr ''job.sh''"
    by code_simp
  have r: "run_error ?w (trace ?w) [''sbatch'', ''job.sh''] = None"
    by (simp add: quiet_world_def)
  have 4: "returncode (respond ?w (trace ?w) [''sbatch'', ''job.sh'']) = 0"
    by (simp add: quiet_world_def)
  have "search_job_id ''sbatch: accepted'' = None"
    by code_simp
  then have 5: "\<not> (\<exists>pre d rest. proc_stdout (respond ?w (trace ?w) [''sbatch'', ''job.sh''])
                  = pre @ ''Submitted batch job '' @ d # rest \<and> is_digit d)"
    using search_job_id_None_iff [of "''sbatch: accepted''"] by (simp add: quiet_world_def)
  show ?thesis
    using sbatch_without_job_id [OF 1 2 3 r 4 5, of None None]
    by (simp add: quiet_world_def)
qed

end
